theory Spec2Isabelle
  imports Main "HOL-Library.Word"
begin

section \<open>The fingerprint HAL service shim (aidl/biometrics/fingerprint/Fingerprint.cpp)\<close>

text \<open>
  A shallow embedding of \<^verbatim>\<open>Fingerprint.cpp\<close> and \<^verbatim>\<open>Fingerprint.h\<close>.
  Pointers are addresses (\<open>nat\<close>), a nullable pointer is an \<open>option\<close> (\<open>None\<close> is
  \<^verbatim>\<open>nullptr\<close>). Everything the file calls but does not define (libhardware, the
  vendor's module and device, libcutils' properties, the UDFPS handler factory) is a field
  of the record \<open>extern\<close>; the state those calls read and change is the abstract world
  \<open>'w\<close>, threaded through every call in the order of the source. A run that the
  C++ would not survive (the \<^verbatim>\<open>CHECK\<close> of createSession, a dereferenced null
  pointer) ends in a \<open>fault\<close>. The \<^verbatim>\<open>ALOG*\<close> lines are diagnostics and are
  not part of the model.
\<close>

subsection \<open>Machine types and pointers\<close>

type_synonym int32_t = "32 word"
type_synonym uint32_t = "32 word"
type_synonym uint16_t = "16 word"

type_synonym hw_module_ptr = nat
type_synonym open_fn_ptr = nat
type_synonym fingerprint_device_ptr = nat
type_synonym UdfpsHandlerFactory_ptr = nat
type_synonym UdfpsHandler_ptr = nat
type_synonym Fingerprint_ptr = nat
type_synonym Session_ptr = nat
type_synonym ISessionCallback_ptr = nat
type_synonym fingerprint_msg_ptr = nat

text \<open>
  A value of type \<^verbatim>\<open>fingerprint_notify_t\<close>: the static member
  \<^verbatim>\<open>Fingerprint::notify\<close>, or any other function.
\<close>

datatype fingerprint_notify_t = Fingerprint_notify | other_notify nat

datatype fault = NullPointerDereference | CheckFailure string | DanglingPointer

text \<open>\<^verbatim>\<open>FingerprintSensorType\<close> of the AIDL interface.\<close>

datatype FingerprintSensorType =
  UNKNOWN | REAR | UNDER_DISPLAY_ULTRASONIC | UNDER_DISPLAY_OPTICAL | POWER_BUTTON | HOME_BUTTON

subsection \<open>What the file calls and does not define\<close>

text \<open>
  \<^item> \<open>HARDWARE_MODULE_API_VERSION\<close>: the macro of \<^verbatim>\<open>hardware/hardware.h\<close>;
  \<^item> \<open>hw_get_module_by_class\<close>: returns the error code and what it stored in \<^verbatim>\<open>&hw_mdl\<close>;
  \<^item> \<open>methods_open\<close>: the function pointer \<^verbatim>\<open>module->common.methods->open\<close>;
  \<^item> \<open>call_open\<close>: calling that pointer with \<^verbatim>\<open>(hw_mdl, nullptr, &device)\<close>: the error
    code and what it stored in \<^verbatim>\<open>&device\<close>;
  \<^item> \<open>device_version\<close>: the field \<^verbatim>\<open>device->version\<close>;
  \<^item> \<open>set_notify\<close>, \<open>common_close\<close>: the device's function pointers of these names;
  \<^item> \<open>property_get_int32\<close>: libcutils, with the key and the default value;
  \<^item> \<open>getUdfpsHandlerFactory\<close>, \<open>factory_create\<close>, \<open>factory_destroy\<close>, \<open>handler_init\<close>:
    the declarations of \<^verbatim>\<open>UdfpsHandler.h\<close>;
  \<^item> \<open>LockoutTracker_init\<close>: a default-constructed \<^verbatim>\<open>LockoutTracker\<close>, of type \<open>'lt\<close>.
\<close>

record ('w, 'lt) extern =
  HARDWARE_MODULE_API_VERSION :: "int \<Rightarrow> int \<Rightarrow> int"
  hw_get_module_by_class ::
    "string \<Rightarrow> string option \<Rightarrow> 'w \<Rightarrow> (int32_t \<times> hw_module_ptr option) \<times> 'w"
  methods_open :: "hw_module_ptr \<Rightarrow> 'w \<Rightarrow> open_fn_ptr option"
  call_open ::
    "open_fn_ptr \<Rightarrow> hw_module_ptr \<Rightarrow> 'w \<Rightarrow> (int32_t \<times> fingerprint_device_ptr option) \<times> 'w"
  device_version :: "fingerprint_device_ptr \<Rightarrow> 'w \<Rightarrow> uint32_t"
  set_notify :: "fingerprint_device_ptr \<Rightarrow> fingerprint_notify_t \<Rightarrow> 'w \<Rightarrow> int32_t \<times> 'w"
  common_close :: "fingerprint_device_ptr \<Rightarrow> 'w \<Rightarrow> int32_t \<times> 'w"
  property_get_int32 :: "string \<Rightarrow> int32_t \<Rightarrow> 'w \<Rightarrow> int32_t"
  getUdfpsHandlerFactory :: "'w \<Rightarrow> UdfpsHandlerFactory_ptr option \<times> 'w"
  factory_create :: "UdfpsHandlerFactory_ptr \<Rightarrow> 'w \<Rightarrow> UdfpsHandler_ptr option \<times> 'w"
  factory_destroy :: "UdfpsHandlerFactory_ptr \<Rightarrow> UdfpsHandler_ptr \<Rightarrow> 'w \<Rightarrow> 'w"
  handler_init :: "UdfpsHandler_ptr \<Rightarrow> fingerprint_device_ptr option \<Rightarrow> 'w \<Rightarrow> 'w"
  LockoutTracker_init :: 'lt

subsection \<open>The module table and the constants\<close>

record fingerprint_hal =
  id_name :: string
  class_name :: "string option"
  sensor_type :: FingerprintSensorType

definition kModules :: "fingerprint_hal list" where
  "kModules =
     [\<lparr>id_name = ''fingerprint.goodix_fod'', class_name = None,
       sensor_type = UNDER_DISPLAY_OPTICAL\<rparr>,
      \<lparr>id_name = ''fingerprint'', class_name = None,
       sensor_type = UNDER_DISPLAY_OPTICAL\<rparr>]"

text \<open>
  \<^verbatim>\<open>static const uint16_t kVersion = HARDWARE_MODULE_API_VERSION(2, 1)\<close>: the macro's
  \<^verbatim>\<open>int\<close> narrowed to 16 bits.
\<close>

definition kVersion :: "('w, 'lt) extern \<Rightarrow> uint16_t" where
  "kVersion X = word_of_int (HARDWARE_MODULE_API_VERSION X 2 1)"

subsection \<open>openHal\<close>

text \<open>
  \<^verbatim>\<open>Fingerprint::openHal(id_name, class_name)\<close>, lines 108 to 149. Every
  \<^verbatim>\<open>return nullptr\<close> is a result \<open>Inr (None, w)\<close> with the world as it is at that
  point. The comparison \<^verbatim>\<open>kVersion != device->version\<close> is made at 32 bits, after
  the integer promotion of \<open>kVersion\<close>. When \<open>open\<close> reports success and has left
  \<^verbatim>\<open>device\<close> at its initial \<^verbatim>\<open>nullptr\<close>, reading \<^verbatim>\<open>device->version\<close>
  is the fault.
\<close>

definition openHal ::
  "('w, 'lt) extern \<Rightarrow> string \<Rightarrow> string option \<Rightarrow> 'w
     \<Rightarrow> fault + (fingerprint_device_ptr option \<times> 'w)" where
  "openHal X idn cls w =
     (case hw_get_module_by_class X idn cls w of
        ((err, hw_mdl), w1) \<Rightarrow>
          if err \<noteq> 0 then Inr (None, w1)
          else (case hw_mdl of
            None \<Rightarrow> Inr (None, w1)
          | Some module \<Rightarrow>
              (case methods_open X module w1 of
                 None \<Rightarrow> Inr (None, w1)
               | Some open_fn \<Rightarrow>
                   (case call_open X open_fn module w1 of
                      ((err2, device), w2) \<Rightarrow>
                        if err2 \<noteq> 0 then Inr (None, w2)
                        else (case device of
                          None \<Rightarrow> Inl NullPointerDereference
                        | Some fp_device \<Rightarrow>
                            if ucast (kVersion X) \<noteq> device_version X fp_device w2
                            then Inr (None, w2)
                            else (case set_notify X fp_device Fingerprint_notify w2 of
                              (err3, w3) \<Rightarrow>
                                if err3 \<noteq> 0 then Inr (None, w3)
                                else Inr (Some fp_device, w3)))))))"

text \<open>
  The part of a run of openHal up to line 133: the module was found, it has an
  \<open>open\<close> method, and \<open>open\<close> returned 0 and the device \<open>d\<close>, leaving the world \<open>w2\<close>.
\<close>

definition opened ::
  "('w, 'lt) extern \<Rightarrow> string \<Rightarrow> string option \<Rightarrow> 'w \<Rightarrow> fingerprint_device_ptr \<Rightarrow> 'w \<Rightarrow> bool" where
  "opened X idn cls w d w2 =
     (case hw_get_module_by_class X idn cls w of
        ((err, hw_mdl), w1) \<Rightarrow>
          err = 0 \<and>
          (case hw_mdl of
             None \<Rightarrow> False
           | Some module \<Rightarrow>
               (case methods_open X module w1 of
                  None \<Rightarrow> False
                | Some open_fn \<Rightarrow> call_open X open_fn module w1 = ((0, Some d), w2))))"

subsection \<open>The AIDL parcelables and the status\<close>

text \<open>
  The types of the AIDL interface that getSensorProps fills in, with the fields in the
  order of the aggregate initialisers of lines 161 to 190.
\<close>

datatype SensorStrength = CONVENIENCE | WEAK | STRONG

datatype SensorShape = SQUARE | CIRCLE

typedecl TouchDetectionParameters

record ComponentInfo =
  componentId :: string
  hardwareVersion :: string
  firmwareVersion :: string
  serialNumber :: string
  softwareVersion :: string

record CommonProps =
  sensorId :: int32_t
  sensorStrength :: SensorStrength
  maxEnrollmentsPerUser :: int32_t
  componentInfo :: "ComponentInfo list"

record SensorLocation =
  displayId :: int32_t
  sensorLocationX :: int32_t
  sensorLocationY :: int32_t
  sensorRadius :: int32_t
  display :: string
  sensorShape :: SensorShape

record SensorProps =
  commonProps :: CommonProps
  sensorType :: FingerprintSensorType
  sensorLocations :: "SensorLocation list"
  supportsNavigationGestures :: bool
  supportsDetectInteraction :: bool
  halHandlesDisplayTouches :: bool
  halControlsIllumination :: bool
  touchDetectionParameters :: "TouchDetectionParameters option"

text \<open>The default-constructed \<^verbatim>\<open>SensorLocation sensorLocation;\<close> of line 168.\<close>

definition SensorLocation_init :: SensorLocation where
  "SensorLocation_init =
     \<lparr>displayId = 0, sensorLocationX = 0, sensorLocationY = 0, sensorRadius = 0,
      display = [], sensorShape = CIRCLE\<rparr>"

text \<open>\<^verbatim>\<open>ndk::ScopedAStatus\<close>: \<open>ok\<close>, or a status that is not.\<close>

datatype ScopedAStatus = ScopedAStatus_ok | ScopedAStatus_error int32_t

definition SENSOR_ID :: int32_t where
  "SENSOR_ID = 0"

definition SENSOR_STRENGTH :: SensorStrength where
  "SENSOR_STRENGTH = STRONG"

definition MAX_ENROLLMENTS_PER_USER :: int32_t where
  "MAX_ENROLLMENTS_PER_USER = 7"

definition SUPPORTS_NAVIGATION_GESTURES :: bool where
  "SUPPORTS_NAVIGATION_GESTURES = False"

definition HW_COMPONENT_ID :: string where
  "HW_COMPONENT_ID = ''fingerprintSensor''"

definition HW_VERSION :: string where
  "HW_VERSION = ''vendor/model/revision''"

definition FW_VERSION :: string where
  "FW_VERSION = ''1.01''"

definition SERIAL_NUMBER :: string where
  "SERIAL_NUMBER = ''00000001''"

definition SW_COMPONENT_ID :: string where
  "SW_COMPONENT_ID = ''matchingAlgorithm''"

definition SW_VERSION :: string where
  "SW_VERSION = ''vendor/version/revision''"

subsection \<open>Sessions\<close>

text \<open>The binder of a session callback that is not null: \<^verbatim>\<open>cb->asBinder().get()\<close>.\<close>

datatype AIBinder = asBinder ISessionCallback_ptr

text \<open>
  Modelled from the spec: the class \<^verbatim>\<open>Session\<close> (\<^verbatim>\<open>Session.h\<close> and its
  implementation are not among the two source files). The spec calls it the session object the shim
  delegates to, created per user; the file uses its constructor with five arguments,
  \<^verbatim>\<open>isClosed()\<close>, \<^verbatim>\<open>notify(msg)\<close> and \<^verbatim>\<open>linkToDeath(binder)\<close>. A session
  keeps the five arguments it was made with, is open when made, and records the binders
  it was linked to and the messages it was given. What else a session does, and when it
  becomes closed, is left to the runs below.
\<close>

record 'lt Session =
  session_device :: "fingerprint_device_ptr option"
  session_udfpsHandler :: "UdfpsHandler_ptr option"
  session_userId :: int32_t
  session_cb :: "ISessionCallback_ptr option"
  session_lockoutTracker :: 'lt
  session_closed :: bool
  session_deathLinks :: "AIBinder list"
  session_messages :: "fingerprint_msg_ptr list"

definition Session_make ::
  "fingerprint_device_ptr option \<Rightarrow> UdfpsHandler_ptr option \<Rightarrow> int32_t
     \<Rightarrow> ISessionCallback_ptr option \<Rightarrow> 'lt \<Rightarrow> 'lt Session" where
  "Session_make device udfpsHandler userId cb lockoutTracker =
     \<lparr>session_device = device, session_udfpsHandler = udfpsHandler,
      session_userId = userId, session_cb = cb, session_lockoutTracker = lockoutTracker,
      session_closed = False, session_deathLinks = [], session_messages = []\<rparr>"

definition isClosed :: "'lt Session \<Rightarrow> bool" where
  "isClosed ss = session_closed ss"

definition Session_notify :: "fingerprint_msg_ptr \<Rightarrow> 'lt Session \<Rightarrow> 'lt Session" where
  "Session_notify msg ss = ss\<lparr>session_messages := session_messages ss @ [msg]\<rparr>"

definition linkToDeath :: "AIBinder \<Rightarrow> 'lt Session \<Rightarrow> 'lt Session" where
  "linkToDeath binder ss = ss\<lparr>session_deathLinks := session_deathLinks ss @ [binder]\<rparr>"

subsection \<open>The service object and the state of the process\<close>

text \<open>The data members of \<^verbatim>\<open>class Fingerprint\<close> (\<^verbatim>\<open>Fingerprint.h\<close>, lines 41 to 55).\<close>

record 'lt Fingerprint =
  mSession :: "Session_ptr option"
  mLockoutTracker :: 'lt
  mSensorType :: FingerprintSensorType
  mMaxEnrollmentsPerUser :: int32_t
  mSupportsGestures :: bool
  mDevice :: "fingerprint_device_ptr option"
  mUdfpsHandlerFactory :: "UdfpsHandlerFactory_ptr option"
  mUdfpsHandler :: "UdfpsHandler_ptr option"

text \<open>
  The state: the static \<^verbatim>\<open>sInstance\<close>, the memory of the \<open>Fingerprint\<close> objects by
  address, the sessions made so far (a session's pointer is its index, so that
  \<^verbatim>\<open>mSession\<close> and the \<^verbatim>\<open>out\<close> of createSession share one object), and the
  world of the external calls.
\<close>

record ('w, 'lt) system =
  sInstance :: "Fingerprint_ptr option"
  objects :: "Fingerprint_ptr \<Rightarrow> 'lt Fingerprint"
  sessions :: "'lt Session list"
  world :: 'w

definition this_upd ::
  "Fingerprint_ptr \<Rightarrow> ('lt Fingerprint \<Rightarrow> 'lt Fingerprint) \<Rightarrow> ('w, 'lt) system
     \<Rightarrow> ('w, 'lt) system" where
  "this_upd this f s = s\<lparr>objects := (objects s)(this := f (objects s this))\<rparr>"

definition session_at :: "'lt Session list \<Rightarrow> Session_ptr \<Rightarrow> 'lt Session option" where
  "session_at ss p = (if p < length ss then Some (ss ! p) else None)"

subsection \<open>The constructor and the destructor\<close>

text \<open>
  The loop of lines 59 to 69 over the module table: each turn assigns the result of
  openHal to \<^verbatim>\<open>mDevice\<close>; a null result continues with the next entry, any other sets
  \<^verbatim>\<open>mSensorType\<close> and leaves the loop.
\<close>

fun Fingerprint_probe ::
  "('w, 'lt) extern \<Rightarrow> Fingerprint_ptr \<Rightarrow> fingerprint_hal list \<Rightarrow> ('w, 'lt) system
     \<Rightarrow> fault + ('w, 'lt) system" where
  "Fingerprint_probe X this [] s = Inr s"
| "Fingerprint_probe X this (m # ms) s =
     (case openHal X (id_name m) (class_name m) (world s) of
        Inl f \<Rightarrow> Inl f
      | Inr (dev, w') \<Rightarrow>
          (let s' = this_upd this (\<lambda>obj. obj\<lparr>mDevice := dev\<rparr>) (s\<lparr>world := w'\<rparr>)
           in case dev of
                None \<Rightarrow> Fingerprint_probe X this ms s'
              | Some d \<Rightarrow>
                  Inr (this_upd this (\<lambda>obj. obj\<lparr>mSensorType := sensor_type m\<rparr>) s')))"

text \<open>Lines 75 to 88: the UDFPS handler of an under-display sensor.\<close>

definition Fingerprint_udfps ::
  "('w, 'lt) extern \<Rightarrow> Fingerprint_ptr \<Rightarrow> ('w, 'lt) system \<Rightarrow> ('w, 'lt) system" where
  "Fingerprint_udfps X this s =
     (if mSensorType (objects s this) = UNDER_DISPLAY_OPTICAL
         \<or> mSensorType (objects s this) = UNDER_DISPLAY_ULTRASONIC
      then (case getUdfpsHandlerFactory X (world s) of
        (factory, w1) \<Rightarrow>
          (let s1 = this_upd this (\<lambda>obj. obj\<lparr>mUdfpsHandlerFactory := factory\<rparr>)
                      (s\<lparr>world := w1\<rparr>)
           in case factory of
                None \<Rightarrow> s1
              | Some fac \<Rightarrow>
                  (case factory_create X fac w1 of
                     (handler, w2) \<Rightarrow>
                       (let s2 = this_upd this (\<lambda>obj. obj\<lparr>mUdfpsHandler := handler\<rparr>)
                                   (s1\<lparr>world := w2\<rparr>)
                        in case handler of
                             None \<Rightarrow> s2
                           | Some h \<Rightarrow>
                               s2\<lparr>world := handler_init X h (mDevice (objects s2 this)) w2\<rparr>))))
      else s)"

text \<open>
  Lines 52 to 58 on the object at \<open>this\<close>: the member initialisers (\<^verbatim>\<open>mSession\<close>
  and \<^verbatim>\<open>mLockoutTracker\<close> are default-constructed, the first to null), then
  \<^verbatim>\<open>sInstance = this\<close>.
\<close>

definition Fingerprint_init ::
  "('w, 'lt) extern \<Rightarrow> Fingerprint_ptr \<Rightarrow> ('w, 'lt) system \<Rightarrow> ('w, 'lt) system" where
  "Fingerprint_init X this s =
     s\<lparr>objects := (objects s)(this :=
          \<lparr>mSession = None, mLockoutTracker = LockoutTracker_init X,
           mSensorType = UNKNOWN,
           mMaxEnrollmentsPerUser = MAX_ENROLLMENTS_PER_USER,
           mSupportsGestures = False, mDevice = None,
           mUdfpsHandlerFactory = None, mUdfpsHandler = None\<rparr>),
       sInstance := Some this\<rparr>"

text \<open>
  \<^verbatim>\<open>Fingerprint::Fingerprint()\<close>: the initialisers, the loop over \<open>kModules\<close>, the
  UDFPS part.
\<close>

definition Fingerprint_ctor ::
  "('w, 'lt) extern \<Rightarrow> Fingerprint_ptr \<Rightarrow> ('w, 'lt) system \<Rightarrow> fault + ('w, 'lt) system" where
  "Fingerprint_ctor X this s =
     (case Fingerprint_probe X this kModules (Fingerprint_init X this s) of
        Inl f \<Rightarrow> Inl f
      | Inr s1 \<Rightarrow> Inr (Fingerprint_udfps X this s1))"

text \<open>
  The body of \<^verbatim>\<open>Fingerprint::~Fingerprint()\<close>, lines 91 to 106. Destroying a handler
  through a null factory pointer is the fault.
\<close>

definition Fingerprint_dtor ::
  "('w, 'lt) extern \<Rightarrow> Fingerprint_ptr \<Rightarrow> ('w, 'lt) system \<Rightarrow> fault + ('w, 'lt) system" where
  "Fingerprint_dtor X this s =
     (case (case mUdfpsHandler (objects s this) of
              None \<Rightarrow> Inr (world s)
            | Some h \<Rightarrow>
                (case mUdfpsHandlerFactory (objects s this) of
                   None \<Rightarrow> Inl NullPointerDereference
                 | Some fac \<Rightarrow> Inr (factory_destroy X fac h (world s)))) of
        Inl f \<Rightarrow> Inl f
      | Inr w1 \<Rightarrow>
          (case mDevice (objects s this) of
             None \<Rightarrow> Inr (s\<lparr>world := w1\<rparr>)
           | Some dev \<Rightarrow>
               (case common_close X dev w1 of
                  (err, w2) \<Rightarrow>
                    if err \<noteq> 0 then Inr (s\<lparr>world := w2\<rparr>)
                    else Inr (this_upd this (\<lambda>obj. obj\<lparr>mDevice := None\<rparr>)
                                (s\<lparr>world := w2\<rparr>)))))"

subsection \<open>The callback\<close>

text \<open>
  \<^verbatim>\<open>Fingerprint::notify(msg)\<close>, lines 151 to 158. A session pointer that is not the
  pointer of a session is the fault.
\<close>

definition notify :: "fingerprint_msg_ptr \<Rightarrow> ('w, 'lt) system \<Rightarrow> fault + ('w, 'lt) system" where
  "notify msg s =
     (case sInstance s of
        None \<Rightarrow> Inr s
      | Some thisPtr \<Rightarrow>
          (case mSession (objects s thisPtr) of
             None \<Rightarrow> Inr s
           | Some p \<Rightarrow>
               (case session_at (sessions s) p of
                  None \<Rightarrow> Inl DanglingPointer
                | Some ss \<Rightarrow>
                    if isClosed ss then Inr s
                    else Inr (s\<lparr>sessions := (sessions s)[p := Session_notify msg ss]\<rparr>))))"

subsection \<open>The two remote operations\<close>

text \<open>
  \<^verbatim>\<open>Fingerprint::getSensorProps(out)\<close>, lines 160 to 193: the status, what is
  assigned to \<^verbatim>\<open>*out\<close>, and the state after the call.
\<close>

definition getSensorProps ::
  "('w, 'lt) extern \<Rightarrow> Fingerprint_ptr \<Rightarrow> ('w, 'lt) system
     \<Rightarrow> ScopedAStatus \<times> SensorProps list \<times> ('w, 'lt) system" where
  "getSensorProps X this s =
     (let infos =
            [\<lparr>componentId = HW_COMPONENT_ID, hardwareVersion = HW_VERSION,
              firmwareVersion = FW_VERSION, serialNumber = SERIAL_NUMBER,
              softwareVersion = []\<rparr>,
             \<lparr>componentId = SW_COMPONENT_ID, hardwareVersion = [],
              firmwareVersion = [], serialNumber = [],
              softwareVersion = SW_VERSION\<rparr>];
          common =
            \<lparr>sensorId = SENSOR_ID, sensorStrength = SENSOR_STRENGTH,
             maxEnrollmentsPerUser = mMaxEnrollmentsPerUser (objects s this),
             componentInfo = infos\<rparr>;
          x = property_get_int32 X
                ''ro.vendor.feature.fingerprint_sensorui_position_center_x'' (- 1) (world s);
          y = property_get_int32 X
                ''ro.vendor.feature.fingerprint_sensorui_position_center_y'' (- 1) (world s);
          r = property_get_int32 X
                ''ro.vendor.feature.fingerprint_sensorui_position_center_r'' (- 1) (world s);
          sensorLocation =
            (if 0 \<le> sint x \<and> 0 \<le> sint y \<and> 0 \<le> sint r
             then SensorLocation_init\<lparr>sensorLocationX := x, sensorLocationY := y,
                    sensorRadius := r\<rparr>
             else SensorLocation_init)
      in (ScopedAStatus_ok,
          [\<lparr>commonProps = common, sensorType = mSensorType (objects s this),
            sensorLocations = [sensorLocation],
            supportsNavigationGestures = mSupportsGestures (objects s this),
            supportsDetectInteraction = False, halHandlesDisplayTouches = False,
            halControlsIllumination = False, touchDetectionParameters = None\<rparr>],
          s))"

text \<open>
  \<^verbatim>\<open>Fingerprint::createSession(sensorId, userId, cb, out)\<close>, lines 195 to 206: the
  status, what is assigned to \<^verbatim>\<open>*out\<close>, and the state after the call. The
  unnamed first parameter is \<open>sid\<close>. The new session gets the next free pointer. A
  failed \<^verbatim>\<open>CHECK\<close> aborts the process. The callback \<open>cb\<close> is a
  \<^verbatim>\<open>std::shared_ptr\<close> and may be null: the session is made with it and assigned to
  \<^verbatim>\<open>mSession\<close> and \<^verbatim>\<open>*out\<close> all the same, and \<^verbatim>\<open>cb->asBinder()\<close> in line
  203 is then the fault.
\<close>

definition createSession ::
  "Fingerprint_ptr \<Rightarrow> int32_t \<Rightarrow> int32_t \<Rightarrow> ISessionCallback_ptr option
     \<Rightarrow> ('w, 'lt) system
     \<Rightarrow> fault + (ScopedAStatus \<times> Session_ptr option \<times> ('w, 'lt) system)" where
  "createSession this sid userId cb s =
     (case (case mSession (objects s this) of
              None \<Rightarrow> Inr True
            | Some p \<Rightarrow>
                (case session_at (sessions s) p of
                   None \<Rightarrow> Inl DanglingPointer
                 | Some ss \<Rightarrow> Inr (isClosed ss))) of
        Inl f \<Rightarrow> Inl f
      | Inr checked \<Rightarrow>
          if \<not> checked then Inl (CheckFailure ''Open session already exists!'')
          else
            (let new = length (sessions s);
                 s1 = this_upd this (\<lambda>obj. obj\<lparr>mSession := Some new\<rparr>)
                        (s\<lparr>sessions := sessions s @
                            [Session_make (mDevice (objects s this))
                               (mUdfpsHandler (objects s this)) userId cb
                               (mLockoutTracker (objects s this))]\<rparr>);
                 out = mSession (objects s1 this)
             in case cb of
                  None \<Rightarrow> Inl NullPointerDereference
                | Some c \<Rightarrow>
                    Inr (ScopedAStatus_ok, out,
                         s1\<lparr>sessions := (sessions s1)
                              [new := linkToDeath (asBinder c) (sessions s1 ! new)]\<rparr>)))"

subsection \<open>Runs of the service\<close>

text \<open>
  The states a service process reaches: one \<open>Fingerprint\<close> object is constructed at
  \<open>this\<close> in a process with no session yet; then the framework calls the two remote
  operations, the vendor library calls the registered callback, a session changes under
  the calls of its client (in any way but from closed to open: a closed session stays
  closed), and the world changes under the external calls of others, in any order. A
  call that ends in a fault ends the run.
\<close>

inductive reachable ::
  "('w, 'lt) extern \<Rightarrow> Fingerprint_ptr \<Rightarrow> ('w, 'lt) system \<Rightarrow> bool"
  for X :: "('w, 'lt) extern" and this :: Fingerprint_ptr where
  constructed:
    "sessions s0 = [] \<Longrightarrow> Fingerprint_ctor X this s0 = Inr s \<Longrightarrow> reachable X this s"
| sensor_props:
    "reachable X this s \<Longrightarrow> getSensorProps X this s = (st, out, s') \<Longrightarrow> reachable X this s'"
| session_created:
    "reachable X this s \<Longrightarrow> createSession this sid userId cb s = Inr (st, out, s')
       \<Longrightarrow> reachable X this s'"
| notified:
    "reachable X this s \<Longrightarrow> notify msg s = Inr s' \<Longrightarrow> reachable X this s'"
| session_changed:
    "reachable X this s \<Longrightarrow> session_at (sessions s) p = Some ss
       \<Longrightarrow> (session_closed ss \<longrightarrow> session_closed ss')
       \<Longrightarrow> reachable X this (s\<lparr>sessions := (sessions s)[p := ss']\<rparr>)"
| world_changed:
    "reachable X this s \<Longrightarrow> reachable X this (s\<lparr>world := w'\<rparr>)"


subsection \<open>An example platform\<close>

text \<open>
  A platform to run the definitions on. Its world counts the external calls made so far.
  The module \<open>fingerprint.goodix_fod\<close> is absent (error \<open>-2\<close>); \<open>fingerprint\<close> opens
  device 7, of version 2.1; \<open>fingerprint.old\<close> opens device 8, of version 2.0;
  \<open>fingerprint.mute\<close> opens device 9, of version 2.1, whose \<open>set_notify\<close> fails with
  \<open>-22\<close>. The three sensor-location properties are 540, 2190 and 95. The version macro is
  the one of \<^verbatim>\<open>hardware/hardware.h\<close>.
\<close>

definition demo_extern :: "(nat, unit) extern" where
  "demo_extern =
     \<lparr>HARDWARE_MODULE_API_VERSION =
        (\<lambda>maj min. (maj mod 256) * 256 + min mod 256),
      hw_get_module_by_class =
        (\<lambda>idn cls w.
           if idn = ''fingerprint'' then ((0, Some 1), Suc w)
           else if idn = ''fingerprint.old'' then ((0, Some 2), Suc w)
           else if idn = ''fingerprint.mute'' then ((0, Some 3), Suc w)
           else ((- 2, None), Suc w)),
      methods_open = (\<lambda>module w. Some (100 + module)),
      call_open = (\<lambda>open_fn module w. ((0, Some (6 + module)), Suc w)),
      device_version = (\<lambda>d w. if d = 8 then 512 else 513),
      set_notify =
        (\<lambda>d cb w. (if d = 9 \<or> cb \<noteq> Fingerprint_notify then - 22 else 0, Suc w)),
      common_close = (\<lambda>d w. (0, Suc w)),
      property_get_int32 =
        (\<lambda>key default_value w.
           if key = ''ro.vendor.feature.fingerprint_sensorui_position_center_x'' then 540
           else if key = ''ro.vendor.feature.fingerprint_sensorui_position_center_y'' then 2190
           else if key = ''ro.vendor.feature.fingerprint_sensorui_position_center_r'' then 95
           else default_value),
      getUdfpsHandlerFactory = (\<lambda>w. (Some 40, Suc w)),
      factory_create = (\<lambda>fac w. (Some 41, Suc w)),
      factory_destroy = (\<lambda>fac h w. Suc w),
      handler_init = (\<lambda>h d w. Suc w),
      LockoutTracker_init = ()\<rparr>"

text \<open>
  The same platform where \<open>fingerprint.goodix_fod\<close> is present and opens device 10, of
  version 2.1.
\<close>

definition demo_goodix :: "(nat, unit) extern" where
  "demo_goodix =
     demo_extern\<lparr>hw_get_module_by_class :=
       (\<lambda>idn cls w.
          if idn = ''fingerprint.goodix_fod'' then ((0, Some 4), Suc w)
          else hw_get_module_by_class demo_extern idn cls w)\<rparr>"

text \<open>
  The same platform with no fingerprint module at all and no sensor-location property
  set: every property read is the default value of the call.
\<close>

definition demo_bare :: "(nat, unit) extern" where
  "demo_bare =
     demo_extern\<lparr>hw_get_module_by_class := (\<lambda>idn cls w. ((- 2, None), Suc w)),
                  property_get_int32 := (\<lambda>key default_value w. default_value)\<rparr>"

text \<open>A process before the service object exists, and the object's address.\<close>

definition demo_start :: "(nat, unit) system" where
  "demo_start =
     \<lparr>sInstance = None,
      objects = (\<lambda>a. \<lparr>mSession = None, mLockoutTracker = (), mSensorType = UNKNOWN,
                      mMaxEnrollmentsPerUser = 0, mSupportsGestures = False, mDevice = None,
                      mUdfpsHandlerFactory = None, mUdfpsHandler = None\<rparr>),
      sessions = [], world = 0\<rparr>"

text \<open>
  The states of the example runs: after the constructor on \<open>demo_extern\<close>; after a first
  createSession for user 10 with callback 5; after the client closed that session; after
  a second createSession, for user 11 with callback 6; and after the constructor on
  \<open>demo_bare\<close>.
\<close>

definition demo_ready :: "(nat, unit) system" where
  "demo_ready =
     \<lparr>sInstance = Some 0,
      objects = (objects demo_start)(0 :=
        \<lparr>mSession = None, mLockoutTracker = (), mSensorType = UNDER_DISPLAY_OPTICAL,
         mMaxEnrollmentsPerUser = 7, mSupportsGestures = False, mDevice = Some 7,
         mUdfpsHandlerFactory = Some 40, mUdfpsHandler = Some 41\<rparr>),
      sessions = [], world = 7\<rparr>"

definition demo_session :: "unit Session" where
  "demo_session =
     \<lparr>session_device = Some 7, session_udfpsHandler = Some 41, session_userId = 10,
      session_cb = Some 5, session_lockoutTracker = (), session_closed = False,
      session_deathLinks = [asBinder 5], session_messages = []\<rparr>"

definition demo_open :: "(nat, unit) system" where
  "demo_open =
     \<lparr>sInstance = Some 0,
      objects = (objects demo_start)(0 :=
        \<lparr>mSession = Some 0, mLockoutTracker = (), mSensorType = UNDER_DISPLAY_OPTICAL,
         mMaxEnrollmentsPerUser = 7, mSupportsGestures = False, mDevice = Some 7,
         mUdfpsHandlerFactory = Some 40, mUdfpsHandler = Some 41\<rparr>),
      sessions = [demo_session], world = 7\<rparr>"

definition demo_closed :: "(nat, unit) system" where
  "demo_closed = demo_open\<lparr>sessions := [demo_session\<lparr>session_closed := True\<rparr>]\<rparr>"

definition demo_second :: "(nat, unit) system" where
  "demo_second =
     \<lparr>sInstance = Some 0,
      objects = (objects demo_start)(0 :=
        \<lparr>mSession = Some 1, mLockoutTracker = (), mSensorType = UNDER_DISPLAY_OPTICAL,
         mMaxEnrollmentsPerUser = 7, mSupportsGestures = False, mDevice = Some 7,
         mUdfpsHandlerFactory = Some 40, mUdfpsHandler = Some 41\<rparr>),
      sessions =
        [demo_session\<lparr>session_closed := True\<rparr>,
         demo_session\<lparr>session_userId := 11, session_cb := Some 6,
           session_deathLinks := [asBinder 6]\<rparr>],
      world = 7\<rparr>"

definition demo_bare_ready :: "(nat, unit) system" where
  "demo_bare_ready =
     \<lparr>sInstance = Some 0,
      objects = (objects demo_start)(0 :=
        \<lparr>mSession = None, mLockoutTracker = (), mSensorType = UNKNOWN,
         mMaxEnrollmentsPerUser = 7, mSupportsGestures = False, mDevice = None,
         mUdfpsHandlerFactory = None, mUdfpsHandler = None\<rparr>),
      sessions = [], world = 2\<rparr>"

section \<open>Properties\<close>

lemma openHal_opened:
  "opened X idn cls w d w2 \<Longrightarrow>
   openHal X idn cls w =
     (if ucast (kVersion X) \<noteq> device_version X d w2 then Inr (None, w2)
      else (case set_notify X d Fingerprint_notify w2 of
        (err3, w3) \<Rightarrow> if err3 \<noteq> 0 then Inr (None, w3) else Inr (Some d, w3)))"
  by (auto simp: opened_def openHal_def split: prod.splits option.splits)

lemma openHal_Some_opened:
  "openHal X idn cls w = Inr (Some d, w') \<Longrightarrow> \<exists>w2. opened X idn cls w d w2"
  by (auto simp: opened_def openHal_def split: prod.splits option.splits if_splits)

lemma opened_unique:
  "opened X idn cls w d w2 \<Longrightarrow> opened X idn cls w d' w2' \<Longrightarrow> d' = d \<and> w2' = w2"
  by (auto simp: opened_def split: prod.splits option.splits)

subsection \<open>The example platform, evaluated\<close>

lemma demo_kVersion: "ucast (kVersion demo_extern) = (513 :: uint32_t)"
  by (simp add: kVersion_def demo_extern_def)

lemma demo_openHal_fingerprint:
  "openHal demo_extern ''fingerprint'' None w = Inr (Some 7, Suc (Suc (Suc w)))"
  by (simp add: openHal_def demo_extern_def kVersion_def)

lemma demo_openHal_goodix:
  "openHal demo_extern ''fingerprint.goodix_fod'' None w = Inr (None, Suc w)"
  by (simp add: openHal_def demo_extern_def)

lemma demo_opened:
  "opened demo_extern ''fingerprint'' None 0 7 2"
  "opened demo_extern ''fingerprint.old'' None 0 8 2"
  "opened demo_extern ''fingerprint.mute'' None 0 9 2"
  by (simp_all add: opened_def demo_extern_def)

subsection \<open>openHal: the version and the callback\<close>

text \<open>
  C1. openHal validates the version of the device it opened. If it returns a device
  \<open>d\<close>, then \<open>d\<close> is the device that \<open>open\<close> produced and its \<open>version\<close> field, read
  right after \<open>open\<close>, equals \<open>kVersion\<close>. If the opened device's version differs from
  \<open>kVersion\<close>, openHal returns \<^verbatim>\<open>nullptr\<close> and the world is the one \<open>open\<close> left:
  nothing was called on the device.
\<close>

theorem openHal_validates_version:
  "(openHal X idn cls w = Inr (Some d, w') \<longrightarrow>
      (\<exists>w2. opened X idn cls w d w2 \<and> device_version X d w2 = ucast (kVersion X)))
   \<and> (opened X idn2 cls2 v d2 v2 \<and> device_version X d2 v2 \<noteq> ucast (kVersion X) \<longrightarrow>
        openHal X idn2 cls2 v = Inr (None, v2))"
proof (intro conjI impI)
  assume ret: "openHal X idn cls w = Inr (Some d, w')"
  from openHal_Some_opened [OF ret] obtain w2 where op: "opened X idn cls w d w2" ..
  have "device_version X d w2 = ucast (kVersion X)"
  proof (rule ccontr)
    assume "device_version X d w2 \<noteq> ucast (kVersion X)"
    with openHal_opened [OF op] have "openHal X idn cls w = Inr (None, w2)"
      by auto
    with ret show False by simp
  qed
  with op show "\<exists>w2. opened X idn cls w d w2 \<and> device_version X d w2 = ucast (kVersion X)"
    by blast
next
  assume "opened X idn2 cls2 v d2 v2 \<and> device_version X d2 v2 \<noteq> ucast (kVersion X)"
  then show "openHal X idn2 cls2 v = Inr (None, v2)"
    using openHal_opened [of X idn2 cls2 v d2 v2] by auto
qed

theorem openHal_validates_version_witness:
  "openHal demo_extern ''fingerprint'' None 0 = Inr (Some 7, 3)
   \<and> opened demo_extern ''fingerprint'' None 0 7 2
   \<and> device_version demo_extern 7 2 = ucast (kVersion demo_extern)
   \<and> opened demo_extern ''fingerprint.old'' None 0 8 2
   \<and> device_version demo_extern 8 2 \<noteq> ucast (kVersion demo_extern)
   \<and> openHal demo_extern ''fingerprint.old'' None 0 = Inr (None, 2)"
proof -
  have ret: "openHal demo_extern ''fingerprint'' None 0 = Inr (Some 7, 3)"
    by (simp add: demo_openHal_fingerprint numeral_3_eq_3)
  have old: "opened demo_extern ''fingerprint.old'' None 0 8 2"
    by (rule demo_opened)
  have bad: "device_version demo_extern 8 2 \<noteq> ucast (kVersion demo_extern)"
    by (simp add: demo_kVersion) (simp add: demo_extern_def)
  from openHal_validates_version
         [of demo_extern "''fingerprint''" None 0 7 3 "''fingerprint.old''" None 0 8 2]
       ret old bad
  obtain w2 where "opened demo_extern ''fingerprint'' None 0 7 w2"
    and "device_version demo_extern 7 w2 = ucast (kVersion demo_extern)"
    and "openHal demo_extern ''fingerprint.old'' None 0 = Inr (None, 2)"
    by blast
  moreover from opened_unique [OF demo_opened(1) this(1)] have "w2 = 2" ..
  ultimately show ?thesis using ret old bad by simp
qed

text \<open>
  C2. openHal registers \<^verbatim>\<open>Fingerprint::notify\<close> before it returns a device. If it
  returns a device \<open>d\<close>, then \<open>set_notify\<close> was called on \<open>d\<close> with
  \<^verbatim>\<open>Fingerprint::notify\<close> in the world \<open>open\<close> left, returned 0, and the world
  returned is the one that call left. If \<open>set_notify\<close> on the opened device returns an
  error other than 0, openHal returns \<^verbatim>\<open>nullptr\<close> (after the call when the version
  is \<open>kVersion\<close>; without making it otherwise).
\<close>

theorem openHal_registers_notify:
  "(openHal X idn cls w = Inr (Some d, w') \<longrightarrow>
      (\<exists>w2. opened X idn cls w d w2 \<and> set_notify X d Fingerprint_notify w2 = (0, w')))
   \<and> (opened X idn2 cls2 v d2 v2 \<and> set_notify X d2 Fingerprint_notify v2 = (e, v3)
        \<and> e \<noteq> 0 \<longrightarrow>
        openHal X idn2 cls2 v =
          Inr (None, if device_version X d2 v2 = ucast (kVersion X) then v3 else v2))"
proof (intro conjI impI)
  assume ret: "openHal X idn cls w = Inr (Some d, w')"
  from openHal_Some_opened [OF ret] obtain w2 where op: "opened X idn cls w d w2" ..
  from ret openHal_opened [OF op]
  have "set_notify X d Fingerprint_notify w2 = (0, w')"
    by (auto split: if_splits prod.splits)
  with op show "\<exists>w2. opened X idn cls w d w2 \<and> set_notify X d Fingerprint_notify w2 = (0, w')"
    by blast
next
  assume "opened X idn2 cls2 v d2 v2 \<and> set_notify X d2 Fingerprint_notify v2 = (e, v3)
    \<and> e \<noteq> 0"
  then show "openHal X idn2 cls2 v =
          Inr (None, if device_version X d2 v2 = ucast (kVersion X) then v3 else v2)"
    using openHal_opened [of X idn2 cls2 v d2 v2] by auto
qed

theorem openHal_registers_notify_witness:
  "openHal demo_extern ''fingerprint'' None 0 = Inr (Some 7, 3)
   \<and> opened demo_extern ''fingerprint'' None 0 7 2
   \<and> set_notify demo_extern 7 Fingerprint_notify 2 = (0, 3)
   \<and> opened demo_extern ''fingerprint.mute'' None 0 9 2
   \<and> set_notify demo_extern 9 Fingerprint_notify 2 = (- 22, 3)
   \<and> openHal demo_extern ''fingerprint.mute'' None 0 = Inr (None, 3)"
proof -
  have ret: "openHal demo_extern ''fingerprint'' None 0 = Inr (Some 7, 3)"
    by (simp add: demo_openHal_fingerprint numeral_3_eq_3)
  have mute: "opened demo_extern ''fingerprint.mute'' None 0 9 2"
    by (rule demo_opened)
  have err: "set_notify demo_extern 9 Fingerprint_notify 2 = (- 22, 3)"
    by (simp add: demo_extern_def)
  have ver: "device_version demo_extern 9 2 = ucast (kVersion demo_extern)"
    by (simp add: demo_kVersion) (simp add: demo_extern_def)
  from openHal_registers_notify
         [of demo_extern "''fingerprint''" None 0 7 3 "''fingerprint.mute''" None 0 9 2 "- 22" 3]
       ret mute err ver
  obtain w2 where "opened demo_extern ''fingerprint'' None 0 7 w2"
    and "set_notify demo_extern 7 Fingerprint_notify w2 = (0, 3)"
    and "openHal demo_extern ''fingerprint.mute'' None 0 = Inr (None, 3)"
    by auto
  moreover from opened_unique [OF demo_opened(1) this(1)] have "w2 = 2" ..
  ultimately show ?thesis using ret mute err by simp
qed

subsection \<open>The constructor: the module table\<close>

lemma udfps_frame:
  "sInstance (Fingerprint_udfps X this s) = sInstance s"
  "sessions (Fingerprint_udfps X this s) = sessions s"
  "mSession (objects (Fingerprint_udfps X this s) q) = mSession (objects s q)"
  "mDevice (objects (Fingerprint_udfps X this s) q) = mDevice (objects s q)"
  "mSensorType (objects (Fingerprint_udfps X this s) q) = mSensorType (objects s q)"
  "mMaxEnrollmentsPerUser (objects (Fingerprint_udfps X this s) q)
     = mMaxEnrollmentsPerUser (objects s q)"
  "mSupportsGestures (objects (Fingerprint_udfps X this s) q) = mSupportsGestures (objects s q)"
  "mLockoutTracker (objects (Fingerprint_udfps X this s) q) = mLockoutTracker (objects s q)"
  by (simp_all add: Fingerprint_udfps_def this_upd_def Let_def split: prod.splits option.splits)

lemma demo_ctor: "Fingerprint_ctor demo_extern 0 demo_start = Inr demo_ready"
  by (simp add: Fingerprint_ctor_def Fingerprint_init_def kModules_def demo_openHal_goodix
      demo_openHal_fingerprint this_upd_def Fingerprint_udfps_def demo_ready_def
      MAX_ENROLLMENTS_PER_USER_def)
    (simp add: demo_extern_def demo_start_def this_upd_def)

lemma demo_bare_openHal: "openHal demo_bare idn cls w = Inr (None, Suc w)"
  by (simp add: openHal_def demo_bare_def demo_extern_def)

lemma demo_bare_ctor: "Fingerprint_ctor demo_bare 0 demo_start = Inr demo_bare_ready"
  by (simp add: Fingerprint_ctor_def Fingerprint_init_def kModules_def demo_bare_openHal
      this_upd_def Fingerprint_udfps_def demo_bare_ready_def
      MAX_ENROLLMENTS_PER_USER_def)
    (simp add: demo_bare_def demo_extern_def demo_start_def this_upd_def)

lemma demo_goodix_openHal:
  "openHal demo_goodix ''fingerprint.goodix_fod'' None w = Inr (Some 10, Suc (Suc (Suc w)))"
  by (simp add: openHal_def demo_goodix_def demo_extern_def kVersion_def)

lemma demo_createSession:
  "createSession 0 sid 10 (Some 5) demo_ready = Inr (ScopedAStatus_ok, Some 0, demo_open)"
  by (simp add: createSession_def demo_ready_def demo_open_def demo_session_def this_upd_def
      Session_make_def linkToDeath_def)

lemma demo_createSession_null:
  "createSession 0 sid 12 None demo_ready = Inl NullPointerDereference"
  by (simp add: createSession_def demo_ready_def)

lemma demo_createSession_again:
  "createSession 0 sid 11 (Some 6) demo_open = Inl (CheckFailure ''Open session already exists!'')"
  by (simp add: createSession_def demo_open_def demo_session_def session_at_def isClosed_def)

text \<open>
  C3. The constructor tries the entries of \<open>kModules\<close> in order,
  \<open>fingerprint.goodix_fod\<close> then \<open>fingerprint\<close>. When openHal returns a device for the
  first entry, the loop ends in the world that call left (the second entry is not
  tried), and the constructed object holds that device and the entry's sensor type.
  When the first entry gives \<^verbatim>\<open>nullptr\<close> and the second a device, the object holds
  the second's device and sensor type. When both give \<^verbatim>\<open>nullptr\<close>, \<open>mDevice\<close> is
  null and \<open>mSensorType\<close> is \<open>UNKNOWN\<close>.
\<close>

theorem ctor_probes_kModules:
  "map id_name kModules = [''fingerprint.goodix_fod'', ''fingerprint'']
   \<and> (openHal X ''fingerprint.goodix_fod'' None (world s) = Inr (Some d, w1) \<longrightarrow>
        (\<exists>s1 s'. Fingerprint_probe X this kModules (Fingerprint_init X this s) = Inr s1
           \<and> world s1 = w1
           \<and> Fingerprint_ctor X this s = Inr s'
           \<and> mDevice (objects s' this) = Some d
           \<and> mSensorType (objects s' this) = UNDER_DISPLAY_OPTICAL))
   \<and> (openHal X ''fingerprint.goodix_fod'' None (world s) = Inr (None, w1)
        \<and> openHal X ''fingerprint'' None w1 = Inr (Some d, w2) \<longrightarrow>
        (\<exists>s1 s'. Fingerprint_probe X this kModules (Fingerprint_init X this s) = Inr s1
           \<and> world s1 = w2
           \<and> Fingerprint_ctor X this s = Inr s'
           \<and> mDevice (objects s' this) = Some d
           \<and> mSensorType (objects s' this) = UNDER_DISPLAY_OPTICAL))
   \<and> (openHal X ''fingerprint.goodix_fod'' None (world s) = Inr (None, w1)
        \<and> openHal X ''fingerprint'' None w1 = Inr (None, w2) \<longrightarrow>
        (\<exists>s1 s'. Fingerprint_probe X this kModules (Fingerprint_init X this s) = Inr s1
           \<and> world s1 = w2
           \<and> Fingerprint_ctor X this s = Inr s'
           \<and> mDevice (objects s' this) = None
           \<and> mSensorType (objects s' this) = UNKNOWN))"
proof (intro conjI impI)
  show "map id_name kModules = [''fingerprint.goodix_fod'', ''fingerprint'']"
    by (simp add: kModules_def)
next
  assume "openHal X ''fingerprint.goodix_fod'' None (world s) = Inr (Some d, w1)"
  then show "\<exists>s1 s'. Fingerprint_probe X this kModules (Fingerprint_init X this s) = Inr s1
           \<and> world s1 = w1
           \<and> Fingerprint_ctor X this s = Inr s'
           \<and> mDevice (objects s' this) = Some d
           \<and> mSensorType (objects s' this) = UNDER_DISPLAY_OPTICAL"
    by (simp add: Fingerprint_ctor_def kModules_def Fingerprint_init_def this_upd_def
        udfps_frame)
next
  assume "openHal X ''fingerprint.goodix_fod'' None (world s) = Inr (None, w1)
        \<and> openHal X ''fingerprint'' None w1 = Inr (Some d, w2)"
  then show "\<exists>s1 s'. Fingerprint_probe X this kModules (Fingerprint_init X this s) = Inr s1
           \<and> world s1 = w2
           \<and> Fingerprint_ctor X this s = Inr s'
           \<and> mDevice (objects s' this) = Some d
           \<and> mSensorType (objects s' this) = UNDER_DISPLAY_OPTICAL"
    by (simp add: Fingerprint_ctor_def kModules_def Fingerprint_init_def this_upd_def
        udfps_frame)
next
  assume "openHal X ''fingerprint.goodix_fod'' None (world s) = Inr (None, w1)
        \<and> openHal X ''fingerprint'' None w1 = Inr (None, w2)"
  then show "\<exists>s1 s'. Fingerprint_probe X this kModules (Fingerprint_init X this s) = Inr s1
           \<and> world s1 = w2
           \<and> Fingerprint_ctor X this s = Inr s'
           \<and> mDevice (objects s' this) = None
           \<and> mSensorType (objects s' this) = UNKNOWN"
    by (simp add: Fingerprint_ctor_def kModules_def Fingerprint_init_def this_upd_def
        udfps_frame)
qed


theorem ctor_probes_kModules_witness:
  "openHal demo_goodix ''fingerprint.goodix_fod'' None (world demo_start) = Inr (Some 10, 3)
   \<and> map_sum id (\<lambda>s. (mDevice (objects s 0), mSensorType (objects s 0)))
        (Fingerprint_ctor demo_goodix 0 demo_start) = Inr (Some 10, UNDER_DISPLAY_OPTICAL)
   \<and> openHal demo_extern ''fingerprint.goodix_fod'' None (world demo_start) = Inr (None, 1)
   \<and> openHal demo_extern ''fingerprint'' None 1 = Inr (Some 7, 4)
   \<and> map_sum id (\<lambda>s. (mDevice (objects s 0), mSensorType (objects s 0)))
        (Fingerprint_ctor demo_extern 0 demo_start) = Inr (Some 7, UNDER_DISPLAY_OPTICAL)
   \<and> openHal demo_bare ''fingerprint.goodix_fod'' None (world demo_start) = Inr (None, 1)
   \<and> openHal demo_bare ''fingerprint'' None 1 = Inr (None, 2)
   \<and> map_sum id (\<lambda>s. (mDevice (objects s 0), mSensorType (objects s 0)))
        (Fingerprint_ctor demo_bare 0 demo_start) = Inr (None, UNKNOWN)"
proof -
  have a: "openHal demo_goodix ''fingerprint.goodix_fod'' None (world demo_start)
             = Inr (Some 10, 3)"
    by (simp add: demo_goodix_openHal demo_start_def numeral_3_eq_3)
  have b1: "openHal demo_extern ''fingerprint.goodix_fod'' None (world demo_start)
              = Inr (None, 1)"
    by (simp add: demo_openHal_goodix demo_start_def)
  have b2: "openHal demo_extern ''fingerprint'' None 1 = Inr (Some 7, 4)"
    by (simp add: demo_openHal_fingerprint eval_nat_numeral)
  have c1: "openHal demo_bare ''fingerprint.goodix_fod'' None (world demo_start)
              = Inr (None, 1)"
    by (simp add: demo_bare_openHal demo_start_def)
  have c2: "openHal demo_bare ''fingerprint'' None 1 = Inr (None, 2)"
    by (simp add: demo_bare_openHal eval_nat_numeral)
  from ctor_probes_kModules [of demo_goodix demo_start 10 3 0] a
  obtain sa where "Fingerprint_ctor demo_goodix 0 demo_start = Inr sa"
    and "mDevice (objects sa 0) = Some 10"
    and "mSensorType (objects sa 0) = UNDER_DISPLAY_OPTICAL"
    by blast
  moreover
  from ctor_probes_kModules [of demo_extern demo_start 7 1 0 4] b1 b2
  obtain sb where "Fingerprint_ctor demo_extern 0 demo_start = Inr sb"
    and "mDevice (objects sb 0) = Some 7"
    and "mSensorType (objects sb 0) = UNDER_DISPLAY_OPTICAL"
    by blast
  moreover
  from ctor_probes_kModules [of demo_bare demo_start _ 1 0 2] c1 c2
  obtain sc where "Fingerprint_ctor demo_bare 0 demo_start = Inr sc"
    and "mDevice (objects sc 0) = None"
    and "mSensorType (objects sc 0) = UNKNOWN"
    by blast
  ultimately show ?thesis
    using a b1 b2 c1 c2 by simp
qed


subsection \<open>What each operation changes\<close>

lemma probe_frame:
  "Fingerprint_probe X this ms s = Inr s' \<Longrightarrow>
   sInstance s' = sInstance s \<and> sessions s' = sessions s
   \<and> mSession (objects s' q) = mSession (objects s q)
   \<and> mMaxEnrollmentsPerUser (objects s' q) = mMaxEnrollmentsPerUser (objects s q)
   \<and> mSupportsGestures (objects s' q) = mSupportsGestures (objects s q)
   \<and> mLockoutTracker (objects s' q) = mLockoutTracker (objects s q)"
proof (induction ms arbitrary: s)
  case Nil
  then show ?case by simp
next
  case (Cons m ms)
  show ?case
  proof (cases "openHal X (id_name m) (class_name m) (world s)")
    case (Inl f)
    with Cons.prems show ?thesis by simp
  next
    case (Inr r)
    obtain dev w' where r: "r = (dev, w')" by (cases r)
    show ?thesis
    proof (cases dev)
      case None
      with Cons.prems Inr r
      have "Fingerprint_probe X this ms
              (this_upd this (\<lambda>obj. obj\<lparr>mDevice := None\<rparr>) (s\<lparr>world := w'\<rparr>)) = Inr s'"
        by simp
      from Cons.IH [OF this] show ?thesis
        by (simp add: this_upd_def)
    next
      case (Some d)
      with Cons.prems Inr r show ?thesis
        by (cases "q = this") (auto simp: this_upd_def)
    qed
  qed
qed

lemma ctor_frame:
  assumes "Fingerprint_ctor X this s = Inr s'"
  shows "sInstance s' = Some this" and "sessions s' = sessions s"
    and "mSession (objects s' this) = None"
    and "q \<noteq> this \<Longrightarrow> mSession (objects s' q) = mSession (objects s q)"
    and "mMaxEnrollmentsPerUser (objects s' this) = 7"
    and "\<not> mSupportsGestures (objects s' this)"
proof -
  from assms obtain s1 where
    p: "Fingerprint_probe X this kModules (Fingerprint_init X this s) = Inr s1"
    and s': "s' = Fingerprint_udfps X this s1"
    by (auto simp: Fingerprint_ctor_def split: sum.splits)
  note fr = probe_frame [OF p]
  show "sInstance s' = Some this"
    using fr by (simp add: s' udfps_frame Fingerprint_init_def)
  show "sessions s' = sessions s"
    using fr by (simp add: s' udfps_frame Fingerprint_init_def)
  show "mSession (objects s' this) = None"
    using fr [of this] by (simp add: s' udfps_frame Fingerprint_init_def)
  show "q \<noteq> this \<Longrightarrow> mSession (objects s' q) = mSession (objects s q)"
    using fr [of q] by (simp add: s' udfps_frame Fingerprint_init_def)
  show "mMaxEnrollmentsPerUser (objects s' this) = 7"
    using fr [of this]
    by (simp add: s' udfps_frame Fingerprint_init_def MAX_ENROLLMENTS_PER_USER_def)
  show "\<not> mSupportsGestures (objects s' this)"
    using fr [of this] by (simp add: s' udfps_frame Fingerprint_init_def)
qed

lemma getSensorProps_state: "snd (snd (getSensorProps X this s)) = s"
  by (simp add: getSensorProps_def Let_def)

lemma createSession_Inr:
  assumes "createSession this sid u cb s = Inr (st, out, s')"
  shows "st = ScopedAStatus_ok" and "out = Some (length (sessions s))"
    and "s' = s\<lparr>objects := (objects s)(this :=
                  (objects s this)\<lparr>mSession := Some (length (sessions s))\<rparr>),
               sessions := sessions s @
                  [linkToDeath (asBinder (the cb))
                     (Session_make (mDevice (objects s this)) (mUdfpsHandler (objects s this))
                        u cb (mLockoutTracker (objects s this)))]\<rparr>"
    and "mSession (objects s this) = None
         \<or> (\<exists>p ss. mSession (objects s this) = Some p \<and> session_at (sessions s) p = Some ss
               \<and> isClosed ss)"
    and "\<exists>c. cb = Some c"
  using assms
  by (auto simp: createSession_def this_upd_def Let_def
      split: option.splits sum.splits if_splits)

lemma createSession_checked:
  assumes "mSession (objects s this) = None
         \<or> (\<exists>p ss. mSession (objects s this) = Some p \<and> session_at (sessions s) p = Some ss
               \<and> isClosed ss)"
  shows "createSession this sid u (Some c) s =
     Inr (ScopedAStatus_ok, Some (length (sessions s)),
          s\<lparr>objects := (objects s)(this :=
                  (objects s this)\<lparr>mSession := Some (length (sessions s))\<rparr>),
               sessions := sessions s @
                  [linkToDeath (asBinder c)
                     (Session_make (mDevice (objects s this)) (mUdfpsHandler (objects s this))
                        u (Some c) (mLockoutTracker (objects s this)))]\<rparr>)"
    and "createSession this sid u None s = Inl NullPointerDereference"
  using assms
  by (auto simp: createSession_def this_upd_def Let_def)

lemma notify_Inr:
  assumes "notify msg s = Inr s'"
  shows "s' = s \<or> (\<exists>t p ss. sInstance s = Some t \<and> mSession (objects s t) = Some p
            \<and> session_at (sessions s) p = Some ss \<and> \<not> isClosed ss
            \<and> s' = s\<lparr>sessions := (sessions s)[p := Session_notify msg ss]\<rparr>)"
  using assms
  by (auto simp: notify_def split: option.splits if_splits)

subsection \<open>What holds in every reachable state\<close>

text \<open>
  In every state of a run: \<open>sInstance\<close> is the service object; its enrollment limit is 7
  and its gesture flag is off, as the constructor set them; its session pointer is the
  pointer of a session; and every session but the one it points to is closed.
\<close>

lemma reachable_inv:
  "reachable X this s \<Longrightarrow>
     sInstance s = Some this
     \<and> mMaxEnrollmentsPerUser (objects s this) = 7
     \<and> \<not> mSupportsGestures (objects s this)
     \<and> (\<forall>p. mSession (objects s this) = Some p \<longrightarrow> p < length (sessions s))
     \<and> (\<forall>q. q < length (sessions s) \<longrightarrow> mSession (objects s this) \<noteq> Some q
            \<longrightarrow> session_closed (sessions s ! q))"
proof (induction rule: reachable.induct)
  case (constructed s0 s)
  from ctor_frame(1,2,3,5,6) [OF constructed(2)] constructed(1) show ?case
    by simp
next
  case (sensor_props s st out s')
  from sensor_props(2) getSensorProps_state [of X this s] have "s' = s"
    by simp
  with sensor_props.IH show ?case by simp
next
  case (session_created s sid userId cb st out s')
  note cs = createSession_Inr [OF session_created(2)]
  from cs(4) session_created.IH
  have closed: "\<forall>q. q < length (sessions s) \<longrightarrow> session_closed (sessions s ! q)"
    by (auto simp: session_at_def isClosed_def split: if_splits)
  from session_created.IH closed show ?case
    by (simp add: cs(3) nth_append less_Suc_eq linkToDeath_def Session_make_def)
next
  case (notified s msg s')
  from notify_Inr [OF notified(2)] notified.IH show ?case
    by (auto simp: Session_notify_def session_at_def nth_list_update split: if_splits)
next
  case (session_changed s p ss ss')
  then show ?case
    by (auto simp: session_at_def nth_list_update split: if_splits)
next
  case (world_changed s w')
  then show ?case by simp
qed

lemma demo_ready_reachable: "reachable demo_extern 0 demo_ready"
  by (rule reachable.constructed [OF _ demo_ctor]) (simp add: demo_start_def)

lemma demo_open_reachable: "reachable demo_extern 0 demo_open"
  by (rule reachable.session_created [OF demo_ready_reachable demo_createSession])

lemma demo_closed_reachable: "reachable demo_extern 0 demo_closed"
proof -
  have "session_at (sessions demo_open) 0 = Some demo_session"
    by (simp add: demo_open_def session_at_def)
  from reachable.session_changed
         [OF demo_open_reachable this, of "demo_session\<lparr>session_closed := True\<rparr>"]
  show ?thesis
    by (simp add: demo_closed_def demo_open_def)
qed

lemma demo_createSession_second:
  "createSession 0 sid 11 (Some 6) demo_closed = Inr (ScopedAStatus_ok, Some 1, demo_second)"
  by (simp add: createSession_def demo_closed_def demo_open_def demo_second_def
      demo_session_def this_upd_def Session_make_def linkToDeath_def session_at_def
      isClosed_def)

lemma demo_second_reachable: "reachable demo_extern 0 demo_second"
  by (rule reachable.session_created [OF demo_closed_reachable demo_createSession_second])

subsection \<open>getSensorProps: the properties written\<close>

text \<open>
  C4. In every reachable state getSensorProps assigns to its output a vector of exactly
  one \<open>SensorProps\<close>, whose common properties are sensor id 0, strength \<open>STRONG\<close>,
  at most 7 enrollments per user, and the two component entries \<open>fingerprintSensor\<close>
  (hardware) and \<open>matchingAlgorithm\<close> (software); its sensor type is the one the object
  holds, and navigation gestures are not supported.
\<close>

theorem getSensorProps_output:
  "reachable X this s \<Longrightarrow>
   \<exists>p. fst (snd (getSensorProps X this s)) = [p]
     \<and> commonProps p =
         \<lparr>sensorId = 0, sensorStrength = STRONG, maxEnrollmentsPerUser = 7,
          componentInfo =
            [\<lparr>componentId = ''fingerprintSensor'', hardwareVersion = ''vendor/model/revision'',
              firmwareVersion = ''1.01'', serialNumber = ''00000001'',
              softwareVersion = []\<rparr>,
             \<lparr>componentId = ''matchingAlgorithm'', hardwareVersion = [],
              firmwareVersion = [], serialNumber = [],
              softwareVersion = ''vendor/version/revision''\<rparr>]\<rparr>
     \<and> sensorType p = mSensorType (objects s this)
     \<and> \<not> supportsNavigationGestures p"
proof -
  assume "reachable X this s"
  from reachable_inv [OF this]
  have "mMaxEnrollmentsPerUser (objects s this) = 7"
    and "\<not> mSupportsGestures (objects s this)"
    by simp_all
  then show ?thesis
    by (simp add: getSensorProps_def Let_def SENSOR_ID_def SENSOR_STRENGTH_def
        HW_COMPONENT_ID_def HW_VERSION_def FW_VERSION_def SERIAL_NUMBER_def
        SW_COMPONENT_ID_def SW_VERSION_def)
qed

theorem getSensorProps_output_witness:
  "reachable demo_extern 0 demo_ready
   \<and> map (\<lambda>p. (sensorId (commonProps p), sensorStrength (commonProps p),
                 maxEnrollmentsPerUser (commonProps p),
                 map componentId (componentInfo (commonProps p)),
                 sensorType p, supportsNavigationGestures p))
        (fst (snd (getSensorProps demo_extern 0 demo_ready)))
     = [(0, STRONG, 7, [''fingerprintSensor'', ''matchingAlgorithm''],
         UNDER_DISPLAY_OPTICAL, False)]"
proof -
  from getSensorProps_output [OF demo_ready_reachable]
  obtain p where "fst (snd (getSensorProps demo_extern 0 demo_ready)) = [p]"
    and "sensorId (commonProps p) = 0"
    and "sensorStrength (commonProps p) = STRONG"
    and "maxEnrollmentsPerUser (commonProps p) = 7"
    and "map componentId (componentInfo (commonProps p))
           = [''fingerprintSensor'', ''matchingAlgorithm'']"
    and "sensorType p = mSensorType (objects demo_ready 0)"
    and "\<not> supportsNavigationGestures p"
    by auto
  moreover have "mSensorType (objects demo_ready 0) = UNDER_DISPLAY_OPTICAL"
    by (simp add: demo_ready_def)
  ultimately show ?thesis
    using demo_ready_reachable by simp
qed

subsection \<open>createSession\<close>

lemma dtor_frame:
  "Fingerprint_dtor X this s = Inr s' \<Longrightarrow>
   sInstance s' = sInstance s \<and> sessions s' = sessions s
   \<and> mSession (objects s' q) = mSession (objects s q)"
  by (auto simp: Fingerprint_dtor_def this_upd_def
      split: option.splits sum.splits prod.splits if_splits)

lemma notify_frame:
  "notify msg s = Inr s' \<Longrightarrow> sInstance s' = sInstance s \<and> objects s' = objects s
     \<and> world s' = world s"
  by (auto dest: notify_Inr)

lemma demo_notify_open:
  "notify 99 demo_open
     = Inr (demo_open\<lparr>sessions := [demo_session\<lparr>session_messages := [99]\<rparr>]\<rparr>)"
  by (simp add: notify_def demo_open_def session_at_def isClosed_def Session_notify_def
      demo_session_def)

lemma demo_dtor_open:
  "Fingerprint_dtor demo_extern 0 demo_open
     = Inr (demo_open\<lparr>objects := (objects demo_open)(0 :=
               (objects demo_open 0)\<lparr>mDevice := None\<rparr>), world := 9\<rparr>)"
  by (simp add: Fingerprint_dtor_def demo_open_def this_upd_def)
    (simp add: demo_extern_def this_upd_def)

lemma demo_bare_createSession:
  "createSession 0 sid 10 (Some 5) demo_bare_ready =
     Inr (ScopedAStatus_ok, Some 0,
          demo_bare_ready\<lparr>objects := (objects demo_bare_ready)(0 :=
               (objects demo_bare_ready 0)\<lparr>mSession := Some 0\<rparr>),
             sessions := [demo_session\<lparr>session_device := None,
                            session_udfpsHandler := None\<rparr>]\<rparr>)"
  by (simp add: createSession_def demo_bare_ready_def demo_session_def this_upd_def
      Session_make_def linkToDeath_def)

text \<open>
  C5, under the condition of the \<^verbatim>\<open>CHECK\<close> and for a callback that is not null.
  For every call with user id \<open>u\<close> and callback \<open>c\<close> made while the session pointer is
  null or points to a closed session, createSession returns the OK status; the pointer
  it writes to \<open>out\<close> is a new one (no session had it before) and is the one stored in
  \<open>mSession\<close>; and the session at that pointer is bound to the object's device, UDFPS
  handler and lockout tracker and to \<open>u\<close> and \<open>c\<close>, is open, and is linked to the death
  of the binder of \<open>c\<close>. With a null callback the same call ends in line 203, at the
  dereference of the null pointer, and returns no status.
\<close>

theorem createSession_creates_session:
  "mSession (objects s this) = None
     \<or> (\<exists>p ss. mSession (objects s this) = Some p \<and> session_at (sessions s) p = Some ss
           \<and> isClosed ss)
   \<Longrightarrow>
   (\<exists>s'. createSession this sid u (Some c) s
           = Inr (ScopedAStatus_ok, Some (length (sessions s)), s')
      \<and> session_at (sessions s) (length (sessions s)) = None
      \<and> mSession (objects s' this) = Some (length (sessions s))
      \<and> session_at (sessions s') (length (sessions s)) =
          Some \<lparr>session_device = mDevice (objects s this),
                session_udfpsHandler = mUdfpsHandler (objects s this),
                session_userId = u, session_cb = Some c,
                session_lockoutTracker = mLockoutTracker (objects s this),
                session_closed = False, session_deathLinks = [asBinder c],
                session_messages = []\<rparr>)
   \<and> createSession this sid u None s = Inl NullPointerDereference"
proof -
  assume pre: "mSession (objects s this) = None
     \<or> (\<exists>p ss. mSession (objects s this) = Some p \<and> session_at (sessions s) p = Some ss
           \<and> isClosed ss)"
  show ?thesis
    unfolding createSession_checked [OF pre]
    by (simp add: session_at_def linkToDeath_def Session_make_def)
qed

theorem createSession_creates_session_witness:
  "mSession (objects demo_ready 0) = None
   \<and> createSession 0 0 10 (Some 5) demo_ready = Inr (ScopedAStatus_ok, Some 0, demo_open)
   \<and> mSession (objects demo_open 0) = Some 0
   \<and> session_at (sessions demo_open) 0 = Some demo_session
   \<and> mSession (objects demo_closed 0) = Some 0
   \<and> session_at (sessions demo_closed) 0 = Some (demo_session\<lparr>session_closed := True\<rparr>)
   \<and> isClosed (demo_session\<lparr>session_closed := True\<rparr>)
   \<and> createSession 0 0 11 (Some 6) demo_closed = Inr (ScopedAStatus_ok, Some 1, demo_second)
   \<and> mSession (objects demo_second 0) = Some 1
   \<and> session_at (sessions demo_second) 1 =
          Some \<lparr>session_device = Some 7, session_udfpsHandler = Some 41,
                session_userId = 11, session_cb = Some 6, session_lockoutTracker = (),
                session_closed = False, session_deathLinks = [asBinder 6],
                session_messages = []\<rparr>
   \<and> createSession 0 0 10 None demo_ready = Inl NullPointerDereference"
proof -
  have pre: "mSession (objects demo_ready 0) = None"
    by (simp add: demo_ready_def)
  have len: "length (sessions demo_ready) = 0" "length (sessions demo_closed) = 1"
    by (simp_all add: demo_ready_def demo_closed_def demo_open_def)
  have pre2: "mSession (objects demo_closed 0) = Some 0
    \<and> session_at (sessions demo_closed) 0 = Some (demo_session\<lparr>session_closed := True\<rparr>)
    \<and> isClosed (demo_session\<lparr>session_closed := True\<rparr>)"
    by (simp add: demo_closed_def demo_open_def session_at_def isClosed_def)
  from createSession_creates_session [of demo_ready 0 0 10 5] pre
  obtain s' where r: "createSession 0 0 10 (Some 5) demo_ready
           = Inr (ScopedAStatus_ok, Some (length (sessions demo_ready)), s')"
    and m: "mSession (objects s' 0) = Some (length (sessions demo_ready))"
    and n: "session_at (sessions s') (length (sessions demo_ready)) =
          Some \<lparr>session_device = mDevice (objects demo_ready 0),
                session_udfpsHandler = mUdfpsHandler (objects demo_ready 0),
                session_userId = 10, session_cb = Some 5,
                session_lockoutTracker = mLockoutTracker (objects demo_ready 0),
                session_closed = False, session_deathLinks = [asBinder 5],
                session_messages = []\<rparr>"
    and nul: "createSession 0 0 10 None demo_ready = Inl NullPointerDereference"
    by blast
  from r demo_createSession [of 0] have s': "s' = demo_open"
    by simp
  from n have n': "session_at (sessions demo_open) 0 = Some demo_session"
    unfolding s' len by (simp add: demo_ready_def demo_session_def)
  from createSession_creates_session [of demo_closed 0 0 11 6] pre2
  obtain s2 where r2: "createSession 0 0 11 (Some 6) demo_closed
           = Inr (ScopedAStatus_ok, Some (length (sessions demo_closed)), s2)"
    and m2: "mSession (objects s2 0) = Some (length (sessions demo_closed))"
    and n2: "session_at (sessions s2) (length (sessions demo_closed)) =
          Some \<lparr>session_device = mDevice (objects demo_closed 0),
                session_udfpsHandler = mUdfpsHandler (objects demo_closed 0),
                session_userId = 11, session_cb = Some 6,
                session_lockoutTracker = mLockoutTracker (objects demo_closed 0),
                session_closed = False, session_deathLinks = [asBinder 6],
                session_messages = []\<rparr>"
    by blast
  from r2 demo_createSession_second [of 0] have s2: "s2 = demo_second"
    by simp
  from n2 have n2': "session_at (sessions demo_second) 1 =
          Some \<lparr>session_device = Some 7, session_udfpsHandler = Some 41,
                session_userId = 11, session_cb = Some 6, session_lockoutTracker = (),
                session_closed = False, session_deathLinks = [asBinder 6],
                session_messages = []\<rparr>"
    unfolding s2 len by (simp add: demo_closed_def demo_open_def)
  from pre r m n' pre2 r2 m2 n2' nul show ?thesis
    by (simp add: s' s2 len)
qed

text \<open>
  Without these two conditions the statement of C5 does not hold of every call. In the
  example run the constructor and a first createSession leave an open session, and a
  second call ends at the \<^verbatim>\<open>CHECK\<close> of line 198, with no session made and no
  status returned. And a call with a null callback, made right after the constructor,
  ends at the dereference of line 203 and returns no status.
\<close>

theorem createSession_every_call_counterexample:
  "Fingerprint_ctor demo_extern 0 demo_start = Inr demo_ready
   \<and> createSession 0 0 10 (Some 5) demo_ready = Inr (ScopedAStatus_ok, Some 0, demo_open)
   \<and> createSession 0 0 11 (Some 6) demo_open
        = Inl (CheckFailure ''Open session already exists!'')
   \<and> createSession 0 0 12 None demo_ready = Inl NullPointerDereference"
  by (simp add: demo_ctor demo_createSession demo_createSession_again
      demo_createSession_null)

text \<open>
  C6. The service has one session pointer, \<open>mSession\<close>. createSession ends at its
  \<^verbatim>\<open>CHECK\<close> when the pointer points to an open session; when it returns, the pointer
  was null or pointed to a closed session; the sessions are now those there were and one
  more, made from the object's device, UDFPS handler and lockout tracker, the user id
  and the callback; the pointer and \<open>out\<close> are the pointer of that new session; and
  no other object's pointer changed. getSensorProps, notify and the destructor leave the
  pointer of every object as it was, and the constructor starts its own object's at
  null, leaving the others. In every state of a run of the service (one service object;
  a closed session stays closed) at most one session is open, and an open session is
  the one \<open>mSession\<close> points to.
\<close>

theorem single_session_pointer:
  "(mSession (objects s this) = Some p \<and> session_at (sessions s) p = Some ss
      \<and> \<not> isClosed ss \<longrightarrow>
      createSession this sid u cb s = Inl (CheckFailure ''Open session already exists!''))
   \<and> (createSession this sid u cb s = Inr (st, out, s') \<longrightarrow>
        (mSession (objects s this) = None
           \<or> (\<exists>p0 ss0. mSession (objects s this) = Some p0
                 \<and> session_at (sessions s) p0 = Some ss0 \<and> isClosed ss0))
        \<and> session_at (sessions s) (length (sessions s)) = None
        \<and> mSession (objects s' this) = Some (length (sessions s))
        \<and> out = Some (length (sessions s))
        \<and> (\<exists>c. cb = Some c
              \<and> sessions s' = sessions s @
                   [\<lparr>session_device = mDevice (objects s this),
                     session_udfpsHandler = mUdfpsHandler (objects s this),
                     session_userId = u, session_cb = Some c,
                     session_lockoutTracker = mLockoutTracker (objects s this),
                     session_closed = False, session_deathLinks = [asBinder c],
                     session_messages = []\<rparr>]
              \<and> session_at (sessions s') (length (sessions s)) =
                   Some \<lparr>session_device = mDevice (objects s this),
                     session_udfpsHandler = mUdfpsHandler (objects s this),
                     session_userId = u, session_cb = Some c,
                     session_lockoutTracker = mLockoutTracker (objects s this),
                     session_closed = False, session_deathLinks = [asBinder c],
                     session_messages = []\<rparr>)
        \<and> (q \<noteq> this \<longrightarrow> mSession (objects s' q) = mSession (objects s q)))
   \<and> mSession (objects (snd (snd (getSensorProps X this s))) q) = mSession (objects s q)
   \<and> (notify msg s = Inr s' \<longrightarrow> mSession (objects s' q) = mSession (objects s q))
   \<and> (Fingerprint_dtor X this s = Inr s' \<longrightarrow> mSession (objects s' q) = mSession (objects s q))
   \<and> (Fingerprint_ctor X this s = Inr s' \<longrightarrow>
        mSession (objects s' this) = None
        \<and> (q \<noteq> this \<longrightarrow> mSession (objects s' q) = mSession (objects s q)))
   \<and> (reachable X this s \<and> session_at (sessions s) p1 = Some ss1 \<and> \<not> isClosed ss1
        \<and> session_at (sessions s) p2 = Some ss2 \<and> \<not> isClosed ss2 \<longrightarrow>
        p1 = p2 \<and> mSession (objects s this) = Some p1)"
proof (intro conjI impI)
  assume "mSession (objects s this) = Some p \<and> session_at (sessions s) p = Some ss
      \<and> \<not> isClosed ss"
  then show "createSession this sid u cb s = Inl (CheckFailure ''Open session already exists!'')"
    by (simp add: createSession_def)
next
  assume c: "createSession this sid u cb s = Inr (st, out, s')"
  note cs = createSession_Inr [OF c]
  from cs(4) show "mSession (objects s this) = None
           \<or> (\<exists>p0 ss0. mSession (objects s this) = Some p0
                 \<and> session_at (sessions s) p0 = Some ss0 \<and> isClosed ss0)" .
  show "session_at (sessions s) (length (sessions s)) = None"
    by (simp add: session_at_def)
  show "mSession (objects s' this) = Some (length (sessions s))"
    by (simp add: cs(3))
  from cs(2) show "out = Some (length (sessions s))" .
  from cs(5) obtain c where cb: "cb = Some c" ..
  show "\<exists>c. cb = Some c
              \<and> sessions s' = sessions s @
                   [\<lparr>session_device = mDevice (objects s this),
                     session_udfpsHandler = mUdfpsHandler (objects s this),
                     session_userId = u, session_cb = Some c,
                     session_lockoutTracker = mLockoutTracker (objects s this),
                     session_closed = False, session_deathLinks = [asBinder c],
                     session_messages = []\<rparr>]
              \<and> session_at (sessions s') (length (sessions s)) =
                   Some \<lparr>session_device = mDevice (objects s this),
                     session_udfpsHandler = mUdfpsHandler (objects s this),
                     session_userId = u, session_cb = Some c,
                     session_lockoutTracker = mLockoutTracker (objects s this),
                     session_closed = False, session_deathLinks = [asBinder c],
                     session_messages = []\<rparr>"
    by (simp add: cs(3) cb session_at_def linkToDeath_def Session_make_def)
  show "mSession (objects s' q) = mSession (objects s q)" if "q \<noteq> this"
    using that by (simp add: cs(3))
next
  show "mSession (objects (snd (snd (getSensorProps X this s))) q) = mSession (objects s q)"
    by (simp add: getSensorProps_state)
next
  assume "notify msg s = Inr s'"
  from notify_frame [OF this] show "mSession (objects s' q) = mSession (objects s q)"
    by simp
next
  assume "Fingerprint_dtor X this s = Inr s'"
  from dtor_frame [OF this] show "mSession (objects s' q) = mSession (objects s q)"
    by simp
next
  assume c: "Fingerprint_ctor X this s = Inr s'"
  from ctor_frame(3) [OF c] show "mSession (objects s' this) = None" .
  show "mSession (objects s' q) = mSession (objects s q)" if "q \<noteq> this"
    using ctor_frame(4) [OF c that] .
next
  assume a: "reachable X this s \<and> session_at (sessions s) p1 = Some ss1 \<and> \<not> isClosed ss1
        \<and> session_at (sessions s) p2 = Some ss2 \<and> \<not> isClosed ss2"
  then have inv: "\<forall>q. q < length (sessions s) \<longrightarrow> mSession (objects s this) \<noteq> Some q
            \<longrightarrow> session_closed (sessions s ! q)"
    using reachable_inv [of X this s] by blast
  from a have o1: "p1 < length (sessions s)" "\<not> session_closed (sessions s ! p1)"
    and o2: "p2 < length (sessions s)" "\<not> session_closed (sessions s ! p2)"
    by (auto simp: session_at_def isClosed_def split: if_splits)
  from inv o1 have m1: "mSession (objects s this) = Some p1" by blast
  from inv o2 have m2: "mSession (objects s this) = Some p2" by blast
  from m1 m2 show "p1 = p2" by simp
  from m1 show "mSession (objects s this) = Some p1" .
qed

theorem single_session_pointer_witness:
  "mSession (objects demo_open 0) = Some 0
   \<and> session_at (sessions demo_open) 0 = Some demo_session
   \<and> \<not> isClosed demo_session
   \<and> createSession 0 0 11 (Some 6) demo_open = Inl (CheckFailure ''Open session already exists!'')
   \<and> createSession 0 0 10 (Some 5) demo_ready = Inr (ScopedAStatus_ok, Some 0, demo_open)
   \<and> mSession (objects demo_ready 0) = None
   \<and> session_at (sessions demo_ready) 0 = None
   \<and> sessions demo_open = sessions demo_ready @ [demo_session]
   \<and> mSession (objects (snd (snd (getSensorProps demo_extern 0 demo_open))) 0) = Some 0
   \<and> notify 99 demo_open
        = Inr (demo_open\<lparr>sessions := [demo_session\<lparr>session_messages := [99]\<rparr>]\<rparr>)
   \<and> mSession (objects
          (demo_open\<lparr>sessions := [demo_session\<lparr>session_messages := [99]\<rparr>]\<rparr>) 0) = Some 0
   \<and> Fingerprint_dtor demo_extern 0 demo_open
        = Inr (demo_open\<lparr>objects := (objects demo_open)(0 :=
               (objects demo_open 0)\<lparr>mDevice := None\<rparr>), world := 9\<rparr>)
   \<and> mSession (objects
          (demo_open\<lparr>objects := (objects demo_open)(0 :=
               (objects demo_open 0)\<lparr>mDevice := None\<rparr>), world := 9\<rparr>) 0) = Some 0
   \<and> Fingerprint_ctor demo_extern 0 demo_start = Inr demo_ready
   \<and> reachable demo_extern 0 demo_second
   \<and> map session_closed (sessions demo_second) = [True, False]
   \<and> mSession (objects demo_second 0) = Some 1"
proof -
  have m: "mSession (objects demo_open 0) = Some 0"
    by (simp add: demo_open_def)
  have at: "session_at (sessions demo_open) 0 = Some demo_session"
    by (simp add: demo_open_def session_at_def)
  have op: "\<not> isClosed demo_session"
    by (simp add: isClosed_def demo_session_def)
  have len: "length (sessions demo_ready) = 0"
    by (simp add: demo_ready_def)
  note t = single_session_pointer
  from t [of demo_open 0 0 demo_session 0 11 "Some 6"] m at op
  have 1: "createSession 0 0 11 (Some 6) demo_open
             = Inl (CheckFailure ''Open session already exists!'')"
    by blast
  from t [of demo_ready 0 _ _ 0 10 "Some 5" ScopedAStatus_ok "Some 0" demo_open]
    demo_createSession [of 0]
  have 2: "mSession (objects demo_ready 0) = None
           \<or> (\<exists>p0 ss0. mSession (objects demo_ready 0) = Some p0
                 \<and> session_at (sessions demo_ready) p0 = Some ss0 \<and> isClosed ss0)"
    and 3: "session_at (sessions demo_ready) (length (sessions demo_ready)) = None"
    and 8: "\<exists>c. Some 5 = Some c
              \<and> sessions demo_open = sessions demo_ready @
                   [\<lparr>session_device = mDevice (objects demo_ready 0),
                     session_udfpsHandler = mUdfpsHandler (objects demo_ready 0),
                     session_userId = 10, session_cb = Some c,
                     session_lockoutTracker = mLockoutTracker (objects demo_ready 0),
                     session_closed = False, session_deathLinks = [asBinder c],
                     session_messages = []\<rparr>]
              \<and> session_at (sessions demo_open) (length (sessions demo_ready)) =
                   Some \<lparr>session_device = mDevice (objects demo_ready 0),
                     session_udfpsHandler = mUdfpsHandler (objects demo_ready 0),
                     session_userId = 10, session_cb = Some c,
                     session_lockoutTracker = mLockoutTracker (objects demo_ready 0),
                     session_closed = False, session_deathLinks = [asBinder c],
                     session_messages = []\<rparr>"
    by blast+
  from 8 have 8: "sessions demo_open = sessions demo_ready @ [demo_session]"
    by (auto simp: demo_ready_def demo_session_def)
  from 2 have 2: "mSession (objects demo_ready 0) = None"
    by (auto simp: demo_ready_def session_at_def)
  from t [of demo_open 0 _ _ _ _ _ _ _ _ 0 demo_extern]
  have 4: "mSession (objects (snd (snd (getSensorProps demo_extern 0 demo_open))) 0)
             = mSession (objects demo_open 0)"
    by blast
  from t [of demo_open 0 _ _ _ _ _ _ _
            "demo_open\<lparr>sessions := [demo_session\<lparr>session_messages := [99]\<rparr>]\<rparr>" 0 _ 99]
    demo_notify_open
  have 5: "mSession (objects
          (demo_open\<lparr>sessions := [demo_session\<lparr>session_messages := [99]\<rparr>]\<rparr>) 0)
             = mSession (objects demo_open 0)"
    by blast
  from t [of demo_open 0 _ _ _ _ _ _ _
            "demo_open\<lparr>objects := (objects demo_open)(0 :=
               (objects demo_open 0)\<lparr>mDevice := None\<rparr>), world := 9\<rparr>" 0 demo_extern]
    demo_dtor_open
  have 6: "mSession (objects
          (demo_open\<lparr>objects := (objects demo_open)(0 :=
               (objects demo_open 0)\<lparr>mDevice := None\<rparr>), world := 9\<rparr>) 0)
             = mSession (objects demo_open 0)"
    by blast
  have at2: "session_at (sessions demo_second) 1 = Some (sessions demo_second ! 1)"
    and op2: "\<not> isClosed (sessions demo_second ! 1)"
    and cl: "map session_closed (sessions demo_second) = [True, False]"
    by (simp_all add: demo_second_def session_at_def isClosed_def demo_session_def)
  from t [of demo_second 0 _ _ _ _ _ _ _ _ _ demo_extern _
            1 "sessions demo_second ! 1" 1 "sessions demo_second ! 1"]
    demo_second_reachable at2 op2
  have 7: "mSession (objects demo_second 0) = Some 1"
    by blast
  from 1 2 3 4 5 6 7 8 m at op len cl demo_createSession [of 0] demo_notify_open
    demo_dtor_open demo_ctor demo_second_reachable
  show ?thesis
    by simp
qed

text \<open>
  C7. Both remote operations return the OK status on every run that returns:
  getSensorProps always, createSession whenever it returns at all (a failed
  \<^verbatim>\<open>CHECK\<close> and a null callback end the run before). Neither
  has a path that returns another status, also on a service that opened no device and
  found no sensor-location property.
\<close>

theorem returns_ok_status:
  "fst (getSensorProps X this s) = ScopedAStatus_ok
   \<and> (createSession this sid u cb s = Inr (st, out, s') \<longrightarrow> st = ScopedAStatus_ok)"
  by (simp add: getSensorProps_def Let_def createSession_Inr(1))

theorem returns_ok_status_witness:
  "Fingerprint_ctor demo_bare 0 demo_start = Inr demo_bare_ready
   \<and> mDevice (objects demo_bare_ready 0) = None
   \<and> property_get_int32 demo_bare
        ''ro.vendor.feature.fingerprint_sensorui_position_center_x'' (- 1)
        (world demo_bare_ready) = - 1
   \<and> fst (getSensorProps demo_bare 0 demo_bare_ready) = ScopedAStatus_ok
   \<and> map_sum id fst (createSession 0 0 10 (Some 5) demo_bare_ready) = Inr ScopedAStatus_ok"
proof -
  obtain st out s' where r: "createSession 0 0 10 (Some 5) demo_bare_ready = Inr (st, out, s')"
    using demo_bare_createSession [of 0] by simp
  from returns_ok_status [of demo_bare 0 demo_bare_ready 0 10 "Some 5" st out s'] r
  have "fst (getSensorProps demo_bare 0 demo_bare_ready) = ScopedAStatus_ok"
    and "st = ScopedAStatus_ok"
    by simp_all
  with r show ?thesis
    by (simp add: demo_bare_ctor) (simp add: demo_bare_ready_def demo_bare_def)
qed

subsection \<open>The callback\<close>

text \<open>
  C8. \<^verbatim>\<open>Fingerprint::notify\<close> leaves the state as it is when \<open>sInstance\<close> is null,
  when the instance's session pointer is null, and when the session it points to is
  closed (the error line it logs is outside the model). When the session is open, the
  message is passed to that session's \<open>notify\<close>, and nothing else changes. A run of
  notify that changes the state is of this last kind.
\<close>

theorem notify_drops_or_forwards:
  "(sInstance s = None \<longrightarrow> notify msg s = Inr s)
   \<and> (sInstance s = Some t \<and> mSession (objects s t) = None \<longrightarrow> notify msg s = Inr s)
   \<and> (sInstance s = Some t \<and> mSession (objects s t) = Some p
        \<and> session_at (sessions s) p = Some ss \<and> isClosed ss \<longrightarrow> notify msg s = Inr s)
   \<and> (sInstance s = Some t \<and> mSession (objects s t) = Some p
        \<and> session_at (sessions s) p = Some ss \<and> \<not> isClosed ss \<longrightarrow>
        notify msg s = Inr (s\<lparr>sessions := (sessions s)[p := Session_notify msg ss]\<rparr>))
   \<and> (notify msg s = Inr s' \<and> s' \<noteq> s \<longrightarrow>
        (\<exists>t0 p0 ss0. sInstance s = Some t0 \<and> mSession (objects s t0) = Some p0
           \<and> session_at (sessions s) p0 = Some ss0 \<and> \<not> isClosed ss0
           \<and> s' = s\<lparr>sessions := (sessions s)[p0 := Session_notify msg ss0]\<rparr>))"
proof (intro conjI impI)
  assume "sInstance s = None"
  then show "notify msg s = Inr s"
    by (simp add: notify_def)
next
  assume "sInstance s = Some t \<and> mSession (objects s t) = None"
  then show "notify msg s = Inr s"
    by (simp add: notify_def)
next
  assume "sInstance s = Some t \<and> mSession (objects s t) = Some p
        \<and> session_at (sessions s) p = Some ss \<and> isClosed ss"
  then show "notify msg s = Inr s"
    by (simp add: notify_def)
next
  assume "sInstance s = Some t \<and> mSession (objects s t) = Some p
        \<and> session_at (sessions s) p = Some ss \<and> \<not> isClosed ss"
  then show "notify msg s = Inr (s\<lparr>sessions := (sessions s)[p := Session_notify msg ss]\<rparr>)"
    by (simp add: notify_def)
next
  assume "notify msg s = Inr s' \<and> s' \<noteq> s"
  then show "\<exists>t0 p0 ss0. sInstance s = Some t0 \<and> mSession (objects s t0) = Some p0
           \<and> session_at (sessions s) p0 = Some ss0 \<and> \<not> isClosed ss0
           \<and> s' = s\<lparr>sessions := (sessions s)[p0 := Session_notify msg ss0]\<rparr>"
    using notify_Inr [of msg s s'] by blast
qed

theorem notify_drops_or_forwards_witness:
  "sInstance demo_start = None
   \<and> notify 99 demo_start = Inr demo_start
   \<and> sInstance demo_ready = Some 0 \<and> mSession (objects demo_ready 0) = None
   \<and> notify 99 demo_ready = Inr demo_ready
   \<and> sInstance demo_closed = Some 0 \<and> mSession (objects demo_closed 0) = Some 0
   \<and> session_at (sessions demo_closed) 0 = Some (demo_session\<lparr>session_closed := True\<rparr>)
   \<and> isClosed (demo_session\<lparr>session_closed := True\<rparr>)
   \<and> notify 99 demo_closed = Inr demo_closed
   \<and> sInstance demo_open = Some 0 \<and> mSession (objects demo_open 0) = Some 0
   \<and> session_at (sessions demo_open) 0 = Some demo_session
   \<and> \<not> isClosed demo_session
   \<and> notify 99 demo_open
        = Inr (demo_open\<lparr>sessions := [demo_session\<lparr>session_messages := [99]\<rparr>]\<rparr>)
   \<and> demo_open\<lparr>sessions := [demo_session\<lparr>session_messages := [99]\<rparr>]\<rparr> \<noteq> demo_open"
proof -
  note t = notify_drops_or_forwards
  have a: "sInstance demo_start = None"
    by (simp add: demo_start_def)
  have b: "sInstance demo_ready = Some 0 \<and> mSession (objects demo_ready 0) = None"
    by (simp add: demo_ready_def)
  have c: "sInstance demo_closed = Some 0 \<and> mSession (objects demo_closed 0) = Some 0
     \<and> session_at (sessions demo_closed) 0 = Some (demo_session\<lparr>session_closed := True\<rparr>)
     \<and> isClosed (demo_session\<lparr>session_closed := True\<rparr>)"
    by (simp add: demo_closed_def demo_open_def session_at_def isClosed_def)
  have d: "sInstance demo_open = Some 0 \<and> mSession (objects demo_open 0) = Some 0
     \<and> session_at (sessions demo_open) 0 = Some demo_session \<and> \<not> isClosed demo_session"
    by (simp add: demo_open_def session_at_def isClosed_def demo_session_def)
  have upd: "(sessions demo_open)[0 := Session_notify 99 demo_session]
               = [demo_session\<lparr>session_messages := [99]\<rparr>]"
    by (simp add: demo_open_def Session_notify_def demo_session_def)
  have ne: "demo_open\<lparr>sessions := [demo_session\<lparr>session_messages := [99]\<rparr>]\<rparr> \<noteq> demo_open"
    by (simp add: demo_open_def demo_session_def)
  from t [of demo_start 99] a have 1: "notify 99 demo_start = Inr demo_start"
    by blast
  from t [of demo_ready 99 0] b have 2: "notify 99 demo_ready = Inr demo_ready"
    by blast
  from t [of demo_closed 99 0 0 "demo_session\<lparr>session_closed := True\<rparr>"] c
  have 3: "notify 99 demo_closed = Inr demo_closed"
    by blast
  from t [of demo_open 99 0 0 demo_session] d
  have 4: "notify 99 demo_open
        = Inr (demo_open\<lparr>sessions := (sessions demo_open)[0 := Session_notify 99 demo_session]\<rparr>)"
    by blast
  from a b c d 1 2 3 4 ne show ?thesis
    by (simp add: upd)
qed

subsection \<open>getSensorProps: the sensor location and the frame\<close>

text \<open>
  C9. With \<open>x\<close>, \<open>y\<close> and \<open>r\<close> the values read from the three properties
  \<open>ro.vendor.feature.fingerprint_sensorui_position_center_x\<close>, \<open>_y\<close> and \<open>_r\<close> with
  default \<open>-1\<close>: when all three are nonnegative the one sensor location written
  carries them; when one of them is negative, and so when one of them is the default
  \<open>-1\<close> of an absent property, it is the default-constructed location.
\<close>

theorem getSensorProps_location:
  "property_get_int32 X ''ro.vendor.feature.fingerprint_sensorui_position_center_x'' (- 1)
      (world s) = x
   \<and> property_get_int32 X ''ro.vendor.feature.fingerprint_sensorui_position_center_y'' (- 1)
      (world s) = y
   \<and> property_get_int32 X ''ro.vendor.feature.fingerprint_sensorui_position_center_r'' (- 1)
      (world s) = r
   \<longrightarrow>
     (0 \<le> sint x \<and> 0 \<le> sint y \<and> 0 \<le> sint r \<longrightarrow>
        map sensorLocations (fst (snd (getSensorProps X this s)))
          = [[SensorLocation_init\<lparr>sensorLocationX := x, sensorLocationY := y,
                sensorRadius := r\<rparr>]])
     \<and> (sint x < 0 \<or> sint y < 0 \<or> sint r < 0 \<longrightarrow>
        map sensorLocations (fst (snd (getSensorProps X this s))) = [[SensorLocation_init]])
     \<and> (x = - 1 \<or> y = - 1 \<or> r = - 1 \<longrightarrow>
        map sensorLocations (fst (snd (getSensorProps X this s))) = [[SensorLocation_init]])"
  by (auto simp: getSensorProps_def Let_def)

theorem getSensorProps_location_witness:
  "property_get_int32 demo_extern
      ''ro.vendor.feature.fingerprint_sensorui_position_center_x'' (- 1) 7 = 540
   \<and> property_get_int32 demo_extern
      ''ro.vendor.feature.fingerprint_sensorui_position_center_y'' (- 1) 7 = 2190
   \<and> property_get_int32 demo_extern
      ''ro.vendor.feature.fingerprint_sensorui_position_center_r'' (- 1) 7 = 95
   \<and> map sensorLocations (fst (snd (getSensorProps demo_extern 0 demo_ready)))
        = [[\<lparr>displayId = 0, sensorLocationX = 540, sensorLocationY = 2190,
             sensorRadius = 95, display = [], sensorShape = CIRCLE\<rparr>]]
   \<and> property_get_int32 demo_bare
      ''ro.vendor.feature.fingerprint_sensorui_position_center_x'' (- 1) 2 = - 1
   \<and> property_get_int32 demo_bare
      ''ro.vendor.feature.fingerprint_sensorui_position_center_y'' (- 1) 2 = - 1
   \<and> property_get_int32 demo_bare
      ''ro.vendor.feature.fingerprint_sensorui_position_center_r'' (- 1) 2 = - 1
   \<and> map sensorLocations (fst (snd (getSensorProps demo_bare 0 demo_bare_ready)))
        = [[\<lparr>displayId = 0, sensorLocationX = 0, sensorLocationY = 0,
             sensorRadius = 0, display = [], sensorShape = CIRCLE\<rparr>]]"
proof -
  have w: "world demo_ready = 7" "world demo_bare_ready = 2"
    by (simp_all add: demo_ready_def demo_bare_ready_def)
  have p: "property_get_int32 demo_extern
      ''ro.vendor.feature.fingerprint_sensorui_position_center_x'' (- 1) 7 = 540"
    "property_get_int32 demo_extern
      ''ro.vendor.feature.fingerprint_sensorui_position_center_y'' (- 1) 7 = 2190"
    "property_get_int32 demo_extern
      ''ro.vendor.feature.fingerprint_sensorui_position_center_r'' (- 1) 7 = 95"
    by (simp_all add: demo_extern_def)
  have q: "property_get_int32 demo_bare k (- 1) 2 = - 1" for k
    by (simp add: demo_bare_def)
  have pos: "0 \<le> sint (540 :: int32_t)" "0 \<le> sint (2190 :: int32_t)" "0 \<le> sint (95 :: int32_t)"
    by simp_all
  from getSensorProps_location [of demo_extern demo_ready 540 2190 95 0] p pos
  have 1: "map sensorLocations (fst (snd (getSensorProps demo_extern 0 demo_ready)))
          = [[SensorLocation_init\<lparr>sensorLocationX := 540, sensorLocationY := 2190,
                sensorRadius := 95\<rparr>]]"
    unfolding w by blast
  from getSensorProps_location [of demo_bare demo_bare_ready "- 1" "- 1" "- 1" 0] q
  have 2: "map sensorLocations (fst (snd (getSensorProps demo_bare 0 demo_bare_ready)))
          = [[SensorLocation_init]]"
    unfolding w by blast
  from 1 2 p q show ?thesis
    by (simp add: SensorLocation_init_def)
qed

text \<open>
  C10. getSensorProps changes nothing: the state after the call is the state before it,
  so every field of every \<open>Fingerprint\<close> object, \<open>sInstance\<close>, the sessions and the
  world are as they were, and only the output is written. The status and the output
  depend on the fields of the object and the three property values only: two calls that
  agree on these return the same.
\<close>

theorem getSensorProps_read_only:
  "snd (snd (getSensorProps X this s)) = s
   \<and> (objects s1 this1 = objects s2 this2
        \<and> property_get_int32 X1 ''ro.vendor.feature.fingerprint_sensorui_position_center_x''
             (- 1) (world s1)
          = property_get_int32 X2 ''ro.vendor.feature.fingerprint_sensorui_position_center_x''
             (- 1) (world s2)
        \<and> property_get_int32 X1 ''ro.vendor.feature.fingerprint_sensorui_position_center_y''
             (- 1) (world s1)
          = property_get_int32 X2 ''ro.vendor.feature.fingerprint_sensorui_position_center_y''
             (- 1) (world s2)
        \<and> property_get_int32 X1 ''ro.vendor.feature.fingerprint_sensorui_position_center_r''
             (- 1) (world s1)
          = property_get_int32 X2 ''ro.vendor.feature.fingerprint_sensorui_position_center_r''
             (- 1) (world s2)
      \<longrightarrow> fst (getSensorProps X1 this1 s1) = fst (getSensorProps X2 this2 s2)
        \<and> fst (snd (getSensorProps X1 this1 s1)) = fst (snd (getSensorProps X2 this2 s2)))"
  by (simp add: getSensorProps_def Let_def)

theorem getSensorProps_read_only_witness:
  "snd (snd (getSensorProps demo_extern 0 demo_open)) = demo_open
   \<and> objects demo_ready 0 = objects (demo_ready\<lparr>sessions := [demo_session], world := 99\<rparr>) 0
   \<and> demo_ready \<noteq> demo_ready\<lparr>sessions := [demo_session], world := 99\<rparr>
   \<and> fst (snd (getSensorProps demo_extern 0 demo_ready))
       = fst (snd (getSensorProps demo_extern 0
                     (demo_ready\<lparr>sessions := [demo_session], world := 99\<rparr>)))"
proof -
  have p: "property_get_int32 demo_extern k d w = property_get_int32 demo_extern k d w'"
    for k d w w'
    by (simp add: demo_extern_def)
  have ne: "demo_ready \<noteq> demo_ready\<lparr>sessions := [demo_session], world := 99\<rparr>"
    by (simp add: demo_ready_def)
  from getSensorProps_read_only
    [of demo_extern 0 demo_open demo_ready 0
        "demo_ready\<lparr>sessions := [demo_session], world := 99\<rparr>" 0 demo_extern demo_extern]
    p
  have "snd (snd (getSensorProps demo_extern 0 demo_open)) = demo_open"
    and "fst (snd (getSensorProps demo_extern 0 demo_ready))
       = fst (snd (getSensorProps demo_extern 0
                     (demo_ready\<lparr>sessions := [demo_session], world := 99\<rparr>)))"
    by simp_all
  with ne show ?thesis by simp
qed

end
